theory Spec2Isabelle
  imports Complex_Main "HOL-Library.Multiset"
begin

section \<open>JavaScript numbers\<close>

text \<open>
  The pose utilities of \<^verbatim>\<open>apps/web/src/utils/poseUtils.ts\<close> compute with JavaScript
  numbers. A number is modelled as a real value or one of the three special values
  \<open>Infinity\<close>, \<open>-Infinity\<close> and \<open>NaN\<close>. The special values follow IEEE 754
  (division by zero, \<open>Infinity - Infinity\<close>, \<open>0 * Infinity\<close>, comparisons with
  \<open>NaN\<close>). Arithmetic on finite values is exact: rounding, overflow and the sign of
  zero are not part of this model.
\<close>

datatype jsnum = Fin real | PInf | NInf | NaN

instantiation jsnum :: "{plus, minus, uminus, times, inverse, ord}"
begin

fun uminus_jsnum :: "jsnum \<Rightarrow> jsnum" where
  "uminus_jsnum (Fin a) = Fin (- a)"
| "uminus_jsnum PInf = NInf"
| "uminus_jsnum NInf = PInf"
| "uminus_jsnum NaN = NaN"

fun plus_jsnum :: "jsnum \<Rightarrow> jsnum \<Rightarrow> jsnum" where
  "plus_jsnum (Fin a) (Fin b) = Fin (a + b)"
| "plus_jsnum (Fin a) PInf = PInf"
| "plus_jsnum (Fin a) NInf = NInf"
| "plus_jsnum PInf (Fin b) = PInf"
| "plus_jsnum PInf PInf = PInf"
| "plus_jsnum PInf NInf = NaN"
| "plus_jsnum NInf (Fin b) = NInf"
| "plus_jsnum NInf PInf = NaN"
| "plus_jsnum NInf NInf = NInf"
| "plus_jsnum NaN b = NaN"
| "plus_jsnum a NaN = NaN"

definition minus_jsnum :: "jsnum \<Rightarrow> jsnum \<Rightarrow> jsnum" where
  "minus_jsnum a b = a + (- b)"

fun times_jsnum :: "jsnum \<Rightarrow> jsnum \<Rightarrow> jsnum" where
  "times_jsnum (Fin a) (Fin b) = Fin (a * b)"
| "times_jsnum (Fin a) PInf = (if a = 0 then NaN else if 0 < a then PInf else NInf)"
| "times_jsnum (Fin a) NInf = (if a = 0 then NaN else if 0 < a then NInf else PInf)"
| "times_jsnum PInf (Fin b) = (if b = 0 then NaN else if 0 < b then PInf else NInf)"
| "times_jsnum NInf (Fin b) = (if b = 0 then NaN else if 0 < b then NInf else PInf)"
| "times_jsnum PInf PInf = PInf"
| "times_jsnum PInf NInf = NInf"
| "times_jsnum NInf PInf = NInf"
| "times_jsnum NInf NInf = PInf"
| "times_jsnum NaN b = NaN"
| "times_jsnum a NaN = NaN"

fun divide_jsnum :: "jsnum \<Rightarrow> jsnum \<Rightarrow> jsnum" where
  "divide_jsnum (Fin a) (Fin b) =
     (if b = 0 then (if a = 0 then NaN else if 0 < a then PInf else NInf)
      else Fin (a / b))"
| "divide_jsnum (Fin a) PInf = Fin 0"
| "divide_jsnum (Fin a) NInf = Fin 0"
| "divide_jsnum PInf (Fin b) = (if 0 \<le> b then PInf else NInf)"
| "divide_jsnum NInf (Fin b) = (if 0 \<le> b then NInf else PInf)"
| "divide_jsnum PInf PInf = NaN"
| "divide_jsnum PInf NInf = NaN"
| "divide_jsnum NInf PInf = NaN"
| "divide_jsnum NInf NInf = NaN"
| "divide_jsnum NaN b = NaN"
| "divide_jsnum a NaN = NaN"

definition inverse_jsnum :: "jsnum \<Rightarrow> jsnum" where
  "inverse_jsnum a = divide (Fin 1) a"

fun less_jsnum :: "jsnum \<Rightarrow> jsnum \<Rightarrow> bool" where
  "less_jsnum (Fin a) (Fin b) = (a < b)"
| "less_jsnum (Fin a) PInf = True"
| "less_jsnum NInf (Fin b) = True"
| "less_jsnum NInf PInf = True"
| "less_jsnum a b = False"

definition less_eq_jsnum :: "jsnum \<Rightarrow> jsnum \<Rightarrow> bool" where
  "less_eq_jsnum a b = (a < b \<or> (a = b \<and> a \<noteq> NaN))"

instance ..

end

text \<open>\<^verbatim>\<open>Math.sqrt\<close>, \<^verbatim>\<open>Math.max\<close> of two arguments, \<^verbatim>\<open>Math.cos\<close>,
  \<^verbatim>\<open>Math.sin\<close> and \<^verbatim>\<open>Math.PI\<close>.\<close>

fun Math_sqrt :: "jsnum \<Rightarrow> jsnum" where
  "Math_sqrt (Fin a) = (if a < 0 then NaN else Fin (sqrt a))"
| "Math_sqrt PInf = PInf"
| "Math_sqrt NInf = NaN"
| "Math_sqrt NaN = NaN"

definition Math_max :: "jsnum \<Rightarrow> jsnum \<Rightarrow> jsnum" where
  "Math_max a b = (if a = NaN \<or> b = NaN then NaN else if a < b then b else a)"

fun Math_cos :: "jsnum \<Rightarrow> jsnum" where
  "Math_cos (Fin a) = Fin (cos a)"
| "Math_cos b = NaN"

fun Math_sin :: "jsnum \<Rightarrow> jsnum" where
  "Math_sin (Fin a) = Fin (sin a)"
| "Math_sin b = NaN"

definition Math_PI :: jsnum where
  "Math_PI = Fin pi"

text \<open>The truth value of a number in a condition: \<open>0\<close> and \<open>NaN\<close> are falsy.\<close>

definition truthy :: "jsnum \<Rightarrow> bool" where
  "truthy a = (a \<noteq> Fin 0 \<and> a \<noteq> NaN)"

section \<open>Data model\<close>

text \<open>\<^verbatim>\<open>Keypoint\<close> and \<^verbatim>\<open>PoseData\<close>, over the type \<open>'n\<close> of their numbers. A value of
  these types is what \<^verbatim>\<open>validatePoseData\<close> accepts: \<^verbatim>\<open>keypoints\<close> and \<^verbatim>\<open>skeleton\<close> are
  arrays, \<^verbatim>\<open>width\<close> and \<^verbatim>\<open>height\<close> are numbers, and every keypoint has numbers
  \<^verbatim>\<open>x\<close>, \<^verbatim>\<open>y\<close>, \<^verbatim>\<open>confidence\<close> and a string \<^verbatim>\<open>label\<close>. The validator does not look at
  the number of keypoints.\<close>

record 'n Keypoint =
  x :: 'n
  y :: 'n
  confidence :: 'n
  label :: string

record 'n PoseData =
  keypoints :: "'n Keypoint list"
  skeleton :: "(nat \<times> nat) list"
  width :: 'n
  height :: 'n

text \<open>Reading a property of \<open>undefined\<close> raises a \<open>TypeError\<close>.\<close>

datatype error = TypeError

text \<open>The callbacks of \<^verbatim>\<open>Array.prototype.map\<close> run in index order; the first one that
  raises ends the call.\<close>

fun sequence :: "(error + 'a) list \<Rightarrow> error + 'a list" where
  "sequence [] = Inr []"
| "sequence (r # rs) =
     (case r of
        Inl e \<Rightarrow> Inl e
      | Inr v \<Rightarrow> (case sequence rs of Inl e \<Rightarrow> Inl e | Inr vs \<Rightarrow> Inr (v # vs)))"

section \<open>Mirror\<close>

text \<open>\<^verbatim>\<open>MIRROR_MAPPING\<close>, over the indices of \<^verbatim>\<open>COCO_KEYPOINTS\<close>: eyes 1 and 2, ears 3
  and 4, shoulders 5 and 6, elbows 7 and 8, wrists 9 and 10, hips 11 and 12, knees 13
  and 14, ankles 15 and 16. The nose, index 0, has no entry.\<close>

definition MIRROR_MAPPING :: "nat \<rightharpoonup> nat" where
  "MIRROR_MAPPING = map_of
     [(1, 2), (2, 1), (3, 4), (4, 3), (5, 6), (6, 5), (7, 8), (8, 7),
      (9, 10), (10, 9), (11, 12), (12, 11), (13, 14), (14, 13), (15, 16), (16, 15)]"

text \<open>The callback of \<^verbatim>\<open>mirrorPose\<close>. \<^verbatim>\<open>keypoints[mirroredIndex]\<close> past the end of the
  array is \<open>undefined\<close>, and \<^verbatim>\<open>sourceKeypoint.x\<close> then raises.\<close>

definition mirrorKeypoint :: "('n::minus) PoseData \<Rightarrow> 'n Keypoint \<Rightarrow> nat \<Rightarrow> error + 'n Keypoint" where
  "mirrorKeypoint poseData keypoint index =
     (case MIRROR_MAPPING index of
        None \<Rightarrow>
          Inr (keypoint\<lparr>x := width poseData - x keypoint, label := label keypoint\<rparr>)
      | Some mirroredIndex \<Rightarrow>
          (if mirroredIndex < length (keypoints poseData)
           then let sourceKeypoint = keypoints poseData ! mirroredIndex
                in Inr (sourceKeypoint\<lparr>x := width poseData - x sourceKeypoint,
                                        label := label keypoint\<rparr>)
           else Inl TypeError))"

definition mirrorPose :: "('n::minus) PoseData \<Rightarrow> error + 'n PoseData" where
  "mirrorPose poseData =
     (case sequence (map (\<lambda>(index, keypoint). mirrorKeypoint poseData keypoint index)
                         (enumerate 0 (keypoints poseData))) of
        Inl e \<Rightarrow> Inl e
      | Inr mirroredKeypoints \<Rightarrow>
          Inr \<lparr>keypoints = mirroredKeypoints, skeleton = skeleton poseData,
               width = width poseData, height = height poseData\<rparr>)"

text \<open>Every position of the pose has its mirror partner, when it has one, inside the
  keypoint array: the poses on which no callback of \<^verbatim>\<open>mirrorPose\<close> raises.\<close>

definition partnersInRange :: "('n, 'm) PoseData_scheme \<Rightarrow> bool" where
  "partnersInRange poseData =
     list_all (\<lambda>i. case MIRROR_MAPPING i of
                      None \<Rightarrow> True
                    | Some j \<Rightarrow> j < length (keypoints poseData))
              [0..<length (keypoints poseData)]"

text \<open>The mirrored keypoint of position \<open>i\<close> as the specification words it: the source
  keypoint at the partner of \<open>i\<close>, or at \<open>i\<close> itself without a partner, with \<open>x\<close>
  replaced by \<open>width - x\<close> and the label of position \<open>i\<close>.\<close>

definition mirrorSpec :: "('n::minus) PoseData \<Rightarrow> nat \<Rightarrow> 'n Keypoint" where
  "mirrorSpec P i =
     (let s = (case MIRROR_MAPPING i of
                 None \<Rightarrow> keypoints P ! i
               | Some j \<Rightarrow> keypoints P ! j)
      in s\<lparr>x := width P - x s, label := label (keypoints P ! i)\<rparr>)"

text \<open>A pose of the example scenario: 17 keypoints in a 768 by 768 frame, the left
  shoulder (index 5) at (300, 400) and the right shoulder (index 6) at (468, 400).\<close>

definition examplePose :: "jsnum PoseData" where
  "examplePose =
     \<lparr>keypoints =
        [\<lparr>x = Fin 384, y = Fin 200, confidence = Fin 0.9, label = ''nose''\<rparr>,
         \<lparr>x = Fin 370, y = Fin 190, confidence = Fin 0.9, label = ''leftEye''\<rparr>,
         \<lparr>x = Fin 398, y = Fin 190, confidence = Fin 0.9, label = ''rightEye''\<rparr>,
         \<lparr>x = Fin 355, y = Fin 200, confidence = Fin 0.8, label = ''leftEar''\<rparr>,
         \<lparr>x = Fin 413, y = Fin 200, confidence = Fin 0.8, label = ''rightEar''\<rparr>,
         \<lparr>x = Fin 300, y = Fin 400, confidence = Fin 0.9, label = ''leftShoulder''\<rparr>,
         \<lparr>x = Fin 468, y = Fin 400, confidence = Fin 0.7, label = ''rightShoulder''\<rparr>,
         \<lparr>x = Fin 280, y = Fin 500, confidence = Fin 0.9, label = ''leftElbow''\<rparr>,
         \<lparr>x = Fin 488, y = Fin 500, confidence = Fin 0.9, label = ''rightElbow''\<rparr>,
         \<lparr>x = Fin 270, y = Fin 600, confidence = Fin 0.9, label = ''leftWrist''\<rparr>,
         \<lparr>x = Fin 498, y = Fin 600, confidence = Fin 0.9, label = ''rightWrist''\<rparr>,
         \<lparr>x = Fin 330, y = Fin 620, confidence = Fin 0.9, label = ''leftHip''\<rparr>,
         \<lparr>x = Fin 438, y = Fin 620, confidence = Fin 0.9, label = ''rightHip''\<rparr>,
         \<lparr>x = Fin 325, y = Fin 680, confidence = Fin 0.9, label = ''leftKnee''\<rparr>,
         \<lparr>x = Fin 443, y = Fin 680, confidence = Fin 0.9, label = ''rightKnee''\<rparr>,
         \<lparr>x = Fin 320, y = Fin 740, confidence = Fin 0.9, label = ''leftAnkle''\<rparr>,
         \<lparr>x = Fin 448, y = Fin 740, confidence = Fin 0.9, label = ''rightAnkle''\<rparr>],
      skeleton = [(5, 6), (5, 7), (6, 8)],
      width = Fin 768, height = Fin 768\<rparr>"

section \<open>Similarity\<close>

text \<open>The loop of \<^verbatim>\<open>calculatePoseSimilarity\<close> from index \<open>i\<close> on, with the running
  \<^verbatim>\<open>totalDistance\<close> and \<^verbatim>\<open>validPoints\<close>. It runs only when both arrays have the
  same length, so both reads are inside their arrays.\<close>

function similarityLoop ::
  "(jsnum, 'a) PoseData_scheme \<Rightarrow> (jsnum, 'b) PoseData_scheme \<Rightarrow> nat \<Rightarrow> jsnum \<Rightarrow> nat
     \<Rightarrow> jsnum \<times> nat" where
  "similarityLoop pose1 pose2 i totalDistance validPoints =
     (if i < length (keypoints pose1)
      then let kp1 = keypoints pose1 ! i;
               kp2 = keypoints pose2 ! i
           in if confidence kp1 > Fin 0.5 \<and> confidence kp2 > Fin 0.5
              then let dx = x kp1 - x kp2;
                       dy = y kp1 - y kp2;
                       distance = Math_sqrt (dx * dx + dy * dy);
                       normalizedDistance =
                         distance / Math_sqrt (width pose1 * width pose1
                                               + height pose1 * height pose1)
                   in similarityLoop pose1 pose2 (i + 1)
                        (totalDistance + normalizedDistance) (validPoints + 1)
              else similarityLoop pose1 pose2 (i + 1) totalDistance validPoints
      else (totalDistance, validPoints))"
  by pat_completeness auto
termination
  by (relation "measure (\<lambda>(pose1, pose2, i, totalDistance, validPoints).
                           length (keypoints pose1) - i)") auto

definition calculatePoseSimilarity ::
  "(jsnum, 'a) PoseData_scheme \<Rightarrow> (jsnum, 'b) PoseData_scheme \<Rightarrow> jsnum" where
  "calculatePoseSimilarity pose1 pose2 =
     (if length (keypoints pose1) \<noteq> length (keypoints pose2) then Fin 0
      else case similarityLoop pose1 pose2 0 (Fin 0) 0 of
             (totalDistance, validPoints) \<Rightarrow>
               if validPoints = 0 then Fin 0
               else let avgDistance = totalDistance / Fin (real validPoints)
                    in Math_max (Fin 0) (Fin 1 - avgDistance * Fin 5))"

text \<open>Some index has both confidences above 0.5.\<close>

definition anyConfident ::
  "(jsnum, 'a) PoseData_scheme \<Rightarrow> (jsnum, 'b) PoseData_scheme \<Rightarrow> bool" where
  "anyConfident pose1 pose2 =
     list_ex (\<lambda>i. confidence (keypoints pose1 ! i) > Fin 0.5
                  \<and> confidence (keypoints pose2 ! i) > Fin 0.5)
             [0..<length (keypoints pose1)]"

text \<open>Small poses of one keypoint, used as concrete inputs: \<open>poseA\<close> and \<open>poseA'\<close> in a
  3 by 4 frame (diagonal 5), \<open>poseB\<close> in a 6 by 8 frame (diagonal 10), \<open>poseLow\<close> with a
  confidence of exactly 0.5, and \<open>poseZero\<close> in a frame of width and height 0.\<close>

definition poseA :: "jsnum PoseData" where
  "poseA = \<lparr>keypoints = [\<lparr>x = Fin 0, y = Fin 0, confidence = Fin 1, label = ''nose''\<rparr>],
            skeleton = [], width = Fin 3, height = Fin 4\<rparr>"

definition poseA' :: "jsnum PoseData" where
  "poseA' = \<lparr>keypoints = [\<lparr>x = Fin 1, y = Fin 0, confidence = Fin 1, label = ''nose''\<rparr>],
             skeleton = [], width = Fin 3, height = Fin 4\<rparr>"

definition poseB :: "jsnum PoseData" where
  "poseB = \<lparr>keypoints = [\<lparr>x = Fin 1, y = Fin 0, confidence = Fin 1, label = ''nose''\<rparr>],
            skeleton = [], width = Fin 6, height = Fin 8\<rparr>"

definition poseLow :: "jsnum PoseData" where
  "poseLow = \<lparr>keypoints = [\<lparr>x = Fin 2, y = Fin 2, confidence = Fin 0.5, label = ''nose''\<rparr>],
              skeleton = [], width = Fin 3, height = Fin 4\<rparr>"

definition poseZero :: "jsnum PoseData" where
  "poseZero = \<lparr>keypoints = [\<lparr>x = Fin 0, y = Fin 0, confidence = Fin 1, label = ''nose''\<rparr>],
               skeleton = [], width = Fin 0, height = Fin 0\<rparr>"

text \<open>A number that is not below zero: \<open>NaN\<close>, \<open>Infinity\<close> or a real that is at least 0.\<close>

definition nonneg :: "jsnum \<Rightarrow> bool" where
  "nonneg a = (case a of Fin r \<Rightarrow> 0 \<le> r | PInf \<Rightarrow> True | NInf \<Rightarrow> False | NaN \<Rightarrow> True)"

section \<open>Nearest-neighbour search\<close>

text \<open>A candidate is a pose with more fields (\<^verbatim>\<open>PoseData & { id: string }\<close>): any
  extension of the record. \<open>IdentifiedPose\<close> is the extension by the identifier.\<close>

record 'n IdentifiedPose = "'n PoseData" +
  id' :: string

record 'p SimilarityItem =
  pose :: 'p
  similarity :: jsnum

text \<open>\<^verbatim>\<open>Array.prototype.sort\<close> with the comparator \<^verbatim>\<open>(a, b) => b.similarity - a.similarity\<close>.
  The sort is stable (ECMAScript 2019): here an insertion sort that puts \<open>a\<close> behind
  \<open>b\<close> exactly when the comparator is positive on \<open>(a, b)\<close>. The array it sorts has
  passed the filter, so every similarity in it is a finite number and the comparator is
  a consistent order.\<close>

fun insertItem :: "'p SimilarityItem \<Rightarrow> 'p SimilarityItem list \<Rightarrow> 'p SimilarityItem list" where
  "insertItem a [] = [a]"
| "insertItem a (b # bs) =
     (if similarity b - similarity a > Fin 0 then b # insertItem a bs else a # b # bs)"

definition sortBySimilarity :: "'p SimilarityItem list \<Rightarrow> 'p SimilarityItem list" where
  "sortBySimilarity items = foldr insertItem items []"

text \<open>\<^verbatim>\<open>Array.prototype.slice(0, end)\<close>: \<open>end\<close> is truncated towards zero (\<open>NaN\<close> is 0),
  a negative \<open>end\<close> counts from the end of the array, and the result is clamped to the
  array.\<close>

definition sliceEnd :: "nat \<Rightarrow> jsnum \<Rightarrow> nat" where
  "sliceEnd len end =
     (case end of
        NaN \<Rightarrow> 0
      | PInf \<Rightarrow> len
      | NInf \<Rightarrow> 0
      | Fin r \<Rightarrow>
          (let relativeEnd = (if r < 0 then \<lceil>r\<rceil> else \<lfloor>r\<rfloor>)
           in if relativeEnd < 0 then nat (max (int len + relativeEnd) 0)
              else min (nat relativeEnd) len))"

definition slice0 :: "'a list \<Rightarrow> jsnum \<Rightarrow> 'a list" where
  "slice0 xs end = take (sliceEnd (length xs) end) xs"

text \<open>\<^verbatim>\<open>findSimilarPoses\<close>; an argument left out is \<open>None\<close> and takes its default.\<close>

definition findSimilarPoses ::
  "(jsnum, 'a) PoseData_scheme \<Rightarrow> (jsnum, 'b) PoseData_scheme list
     \<Rightarrow> jsnum option \<Rightarrow> jsnum option
     \<Rightarrow> (jsnum, 'b) PoseData_scheme SimilarityItem list" where
  "findSimilarPoses targetPose poses thresholdArg maxResultsArg =
     (let threshold = (case thresholdArg of None \<Rightarrow> Fin 0.7 | Some t \<Rightarrow> t);
          maxResults = (case maxResultsArg of None \<Rightarrow> Fin 5 | Some m \<Rightarrow> m);
          similarities =
            slice0
              (sortBySimilarity
                 (filter (\<lambda>item. similarity item \<ge> threshold)
                    (map (\<lambda>pose. \<lparr>pose = pose,
                                    similarity = calculatePoseSimilarity targetPose pose\<rparr>)
                         poses)))
              maxResults
      in similarities)"

text \<open>The same function over a store of arrays, to follow what it writes. An array is a
  cell of the store and is passed by its index; \<^verbatim>\<open>map\<close>, \<^verbatim>\<open>filter\<close> and \<^verbatim>\<open>slice\<close>
  allocate a new cell, \<^verbatim>\<open>sort\<close> overwrites the cell it is called on. Poses and items
  are values: the function writes no field of an object.\<close>

datatype 'p cell = PoseArray "'p list" | ItemArray "'p SimilarityItem list"

fun poseArray :: "'p cell \<Rightarrow> 'p list" where
  "poseArray (PoseArray ps) = ps"
| "poseArray (ItemArray items) = []"

fun itemArray :: "'p cell \<Rightarrow> 'p SimilarityItem list" where
  "itemArray (ItemArray items) = items"
| "itemArray (PoseArray ps) = []"

definition alloc :: "'c list \<Rightarrow> 'c \<Rightarrow> 'c list \<times> nat" where
  "alloc store c = (store @ [c], length store)"

definition findSimilarPosesIn ::
  "(jsnum, 'b) PoseData_scheme cell list \<Rightarrow> (jsnum, 'a) PoseData_scheme \<Rightarrow> nat
     \<Rightarrow> jsnum option \<Rightarrow> jsnum option
     \<Rightarrow> (jsnum, 'b) PoseData_scheme cell list \<times> nat" where
  "findSimilarPosesIn store targetPose poses thresholdArg maxResultsArg =
     (let threshold = (case thresholdArg of None \<Rightarrow> Fin 0.7 | Some t \<Rightarrow> t);
          maxResults = (case maxResultsArg of None \<Rightarrow> Fin 5 | Some m \<Rightarrow> m);
          (store, mapped) =
            alloc store
              (ItemArray
                 (map (\<lambda>pose. \<lparr>pose = pose,
                                 similarity = calculatePoseSimilarity targetPose pose\<rparr>)
                      (poseArray (store ! poses))));
          (store, filtered) =
            alloc store
              (ItemArray (filter (\<lambda>item. similarity item \<ge> threshold)
                                 (itemArray (store ! mapped))));
          store = store[filtered := ItemArray (sortBySimilarity (itemArray (store ! filtered)))];
          (store, similarities) =
            alloc store (ItemArray (slice0 (itemArray (store ! filtered)) maxResults))
      in (store, similarities))"

text \<open>The candidates at or above the threshold with their scores, in input order: the
  specification's description of what is kept.\<close>

definition qualifying ::
  "(jsnum, 'a) PoseData_scheme \<Rightarrow> (jsnum, 'b) PoseData_scheme list \<Rightarrow> jsnum
     \<Rightarrow> (jsnum, 'b) PoseData_scheme SimilarityItem list" where
  "qualifying targetPose poses threshold =
     filter (\<lambda>item. similarity item \<ge> threshold)
       (map (\<lambda>pose. \<lparr>pose = pose, similarity = calculatePoseSimilarity targetPose pose\<rparr>)
            poses)"

definition isFin :: "jsnum \<Rightarrow> bool" where
  "isFin a = (case a of Fin r \<Rightarrow> True | PInf \<Rightarrow> False | NInf \<Rightarrow> False | NaN \<Rightarrow> False)"

text \<open>Candidates with identifiers, in the frame of \<open>poseA\<close>.\<close>

definition candidate :: "string \<Rightarrow> real \<Rightarrow> jsnum IdentifiedPose" where
  "candidate name a =
     \<lparr>keypoints = [\<lparr>x = Fin a, y = Fin 0, confidence = Fin 1, label = ''nose''\<rparr>],
      skeleton = [], width = Fin 3, height = Fin 4, id' = name\<rparr>"

text \<open>Four candidates at the distances 1, 0.5, 0 and 0.5 from the keypoint of \<open>poseA\<close>.\<close>

definition exampleCandidates :: "jsnum IdentifiedPose list" where
  "exampleCandidates =
     [candidate ''far'' 1, candidate ''near'' (1/2), candidate ''same'' 0,
      candidate ''near2'' (- (1/2))]"

section \<open>Scale, rotate and their composition\<close>

definition scalePose :: "('n::{times,inverse}) PoseData \<Rightarrow> 'n \<Rightarrow> 'n \<Rightarrow> 'n PoseData" where
  "scalePose poseData newWidth newHeight =
     (let scaleX = newWidth / width poseData;
          scaleY = newHeight / height poseData;
          scaledKeypoints =
            map (\<lambda>keypoint. keypoint\<lparr>x := x keypoint * scaleX, y := y keypoint * scaleY\<rparr>)
                (keypoints poseData)
      in \<lparr>keypoints = scaledKeypoints, skeleton = skeleton poseData,
          width = newWidth, height = newHeight\<rparr>)"

definition rotatePose :: "jsnum PoseData \<Rightarrow> jsnum \<Rightarrow> jsnum PoseData" where
  "rotatePose poseData angle =
     (let centerX = width poseData / Fin 2;
          centerY = height poseData / Fin 2;
          radians = (angle * Math_PI) / Fin 180;
          cos' = Math_cos radians;
          sin' = Math_sin radians;
          rotatedKeypoints =
            map (\<lambda>keypoint.
                   let relativeX = x keypoint - centerX;
                       relativeY = y keypoint - centerY;
                       rotatedX = relativeX * cos' - relativeY * sin';
                       rotatedY = relativeX * sin' + relativeY * cos'
                   in keypoint\<lparr>x := rotatedX + centerX, y := rotatedY + centerY\<rparr>)
                (keypoints poseData)
      in \<lparr>keypoints = rotatedKeypoints, skeleton = skeleton poseData,
          width = width poseData, height = height poseData\<rparr>)"

text \<open>The configuration of \<^verbatim>\<open>transformPose\<close>: each field may be left out. The scale
  object is the pair of its \<^verbatim>\<open>width\<close> and \<^verbatim>\<open>height\<close>.\<close>

record Transformations =
  mirror :: "bool option"
  scale :: "(jsnum \<times> jsnum) option"
  rotation :: "jsnum option"

text \<open>\<^verbatim>\<open>transformPose\<close> tests the truth value of each field: \<^verbatim>\<open>mirror\<close> must be
  \<open>true\<close>, a scale object is always true, a rotation of \<open>0\<close> or \<open>NaN\<close> is false. An
  exception of \<^verbatim>\<open>mirrorPose\<close> ends the call.\<close>

definition transformPose :: "jsnum PoseData \<Rightarrow> Transformations \<Rightarrow> error + jsnum PoseData" where
  "transformPose poseData transformations =
     (let result = poseData
      in case (if mirror transformations = Some True then mirrorPose result else Inr result) of
           Inl e \<Rightarrow> Inl e
         | Inr result \<Rightarrow>
             (let result =
                    (case scale transformations of
                       Some (scaleWidth, scaleHeight) \<Rightarrow> scalePose result scaleWidth scaleHeight
                     | None \<Rightarrow> result);
                  result =
                    (case rotation transformations of
                       Some angle \<Rightarrow> if truthy angle then rotatePose result angle else result
                     | None \<Rightarrow> result)
              in Inr result))"

text \<open>The three steps in the words of the specification. Mirror is requested when
  \<^verbatim>\<open>mirror\<close> is \<open>true\<close>, scale and rotation when the field is given; a step that is not
  requested returns its argument. \<open>transformSpec\<close> applies them in the order mirror,
  scale, rotate, each to the result of the one before.\<close>

definition mirrorStep :: "Transformations \<Rightarrow> jsnum PoseData \<Rightarrow> error + jsnum PoseData" where
  "mirrorStep t P = (if mirror t = Some True then mirrorPose P else Inr P)"

definition scaleStep :: "Transformations \<Rightarrow> jsnum PoseData \<Rightarrow> jsnum PoseData" where
  "scaleStep t P = (case scale t of None \<Rightarrow> P | Some (w, h) \<Rightarrow> scalePose P w h)"

definition rotateStep :: "Transformations \<Rightarrow> jsnum PoseData \<Rightarrow> jsnum PoseData" where
  "rotateStep t P = (case rotation t of None \<Rightarrow> P | Some a \<Rightarrow> rotatePose P a)"

definition transformSpec :: "jsnum PoseData \<Rightarrow> Transformations \<Rightarrow> error + jsnum PoseData" where
  "transformSpec P t =
     (case mirrorStep t P of
        Inl e \<Rightarrow> Inl e
      | Inr M \<Rightarrow> Inr (rotateStep t (scaleStep t M)))"

text \<open>A pose of one keypoint whose \<open>x\<close> is \<open>Infinity\<close>.\<close>

definition poseInf :: "jsnum PoseData" where
  "poseInf = \<lparr>keypoints = [\<lparr>x = PInf, y = Fin 0, confidence = Fin 1, label = ''nose''\<rparr>],
              skeleton = [], width = Fin 3, height = Fin 4\<rparr>"

section \<open>Variations\<close>

record Variation =
  id' :: string
  title :: string
  poseData' :: "jsnum PoseData"
  transformation :: string

text \<open>The fields \<^verbatim>\<open>id\<close> and \<^verbatim>\<open>poseData\<close> carry a prime: \<open>id\<close> is the identity
  function and \<open>poseData\<close> the name of the argument. The degree sign of the two rotation titles is the code unit \<open>0xB0\<close>. The call of
  \<^verbatim>\<open>mirrorPose\<close> may raise, and then \<^verbatim>\<open>generatePoseVariations\<close> does.\<close>

definition generatePoseVariations :: "jsnum PoseData \<Rightarrow> error + Variation list" where
  "generatePoseVariations poseData =
     (case mirrorPose poseData of
        Inl e \<Rightarrow> Inl e
      | Inr mirrored \<Rightarrow>
          (let scaledSmall =
                 scalePose poseData (width poseData * Fin 0.8) (height poseData * Fin 0.8);
               scaledLarge =
                 scalePose poseData (width poseData * Fin 1.2) (height poseData * Fin 1.2);
               rotated15 = rotatePose poseData (Fin 15);
               rotatedMinus15 = rotatePose poseData (Fin (- 15))
           in Inr [\<lparr>id' = ''original'', title = ''Original'', poseData' = poseData,
                    transformation = ''none''\<rparr>,
                   \<lparr>id' = ''mirrored'', title = ''Mirrored'', poseData' = mirrored,
                    transformation = ''mirror''\<rparr>,
                   \<lparr>id' = ''scaled-small'', title = ''Scaled 80%'', poseData' = scaledSmall,
                    transformation = ''scale-0.8''\<rparr>,
                   \<lparr>id' = ''scaled-large'', title = ''Scaled 120%'', poseData' = scaledLarge,
                    transformation = ''scale-1.2''\<rparr>,
                   \<lparr>id' = ''rotated-15'', title = ''Rotated 15'' @ [CHR 0xB0],
                    poseData' = rotated15, transformation = ''rotate-15''\<rparr>,
                   \<lparr>id' = ''rotated-minus-15'', title = ''Rotated -15'' @ [CHR 0xB0],
                    poseData' = rotatedMinus15, transformation = ''rotate--15''\<rparr>]))"

section \<open>OpenPose interchange\<close>

text \<open>\<^verbatim>\<open>COCO_KEYPOINTS\<close> with its keys in declaration order, the order of
  \<^verbatim>\<open>Object.keys\<close>.\<close>

definition COCO_KEYPOINTS :: "(string \<times> nat) list" where
  "COCO_KEYPOINTS =
     [(''NOSE'', 0), (''LEFT_EYE'', 1), (''RIGHT_EYE'', 2), (''LEFT_EAR'', 3),
      (''RIGHT_EAR'', 4), (''LEFT_SHOULDER'', 5), (''RIGHT_SHOULDER'', 6),
      (''LEFT_ELBOW'', 7), (''RIGHT_ELBOW'', 8), (''LEFT_WRIST'', 9),
      (''RIGHT_WRIST'', 10), (''LEFT_HIP'', 11), (''RIGHT_HIP'', 12),
      (''LEFT_KNEE'', 13), (''RIGHT_KNEE'', 14), (''LEFT_ANKLE'', 15),
      (''RIGHT_ANKLE'', 16)]"

text \<open>An OpenPose-shaped object: \<^verbatim>\<open>people\<close> is absent or an array of persons, and a
  person's \<^verbatim>\<open>pose_keypoints_2d\<close> is absent or an array of numbers. On such an object no
  read of \<^verbatim>\<open>fromOpenPoseFormat\<close> raises.\<close>

record Person =
  person_id :: "jsnum list"
  pose_keypoints_2d :: "jsnum list option"
  face_keypoints_2d :: "jsnum list"
  hand_left_keypoints_2d :: "jsnum list"
  hand_right_keypoints_2d :: "jsnum list"
  pose_keypoints_3d :: "jsnum list"
  face_keypoints_3d :: "jsnum list"
  hand_left_keypoints_3d :: "jsnum list"
  hand_right_keypoints_3d :: "jsnum list"

record OpenPoseData =
  version :: jsnum
  people :: "Person list option"

definition toPoseOpenPoseFormat :: "(jsnum, 'a) PoseData_scheme \<Rightarrow> OpenPoseData" where
  "toPoseOpenPoseFormat poseData =
     \<lparr>version = Fin 1.3,
      people = Some
        [\<lparr>person_id = [Fin (- 1)],
          pose_keypoints_2d =
            Some (concat (map (\<lambda>kp. [x kp, y kp, confidence kp]) (keypoints poseData))),
          face_keypoints_2d = [],
          hand_left_keypoints_2d = [],
          hand_right_keypoints_2d = [],
          pose_keypoints_3d = [],
          face_keypoints_3d = [],
          hand_left_keypoints_3d = [],
          hand_right_keypoints_3d = []\<rparr>]\<rparr>"

text \<open>An array read: past the end of the array it is \<open>undefined\<close>, here \<open>None\<close>.\<close>

definition element :: "'a list \<Rightarrow> nat \<Rightarrow> 'a option" where
  "element xs i = (if i < length xs then Some (xs ! i) else None)"

text \<open>The decimal digits of a number, as the template literal prints it.\<close>

function showNat :: "nat \<Rightarrow> string" where
  "showNat n = (if n < 10 then [''0123456789'' ! n]
                else showNat (n div 10) @ [''0123456789'' ! (n mod 10)])"
  by pat_completeness auto
termination
  by (relation "measure (\<lambda>n. n)") auto

text \<open>\<^verbatim>\<open>Object.keys(COCO_KEYPOINTS)[n] || `keypoint_${n}`\<close>: every key is a non-empty
  string, so the second operand is taken exactly past the last key.\<close>

definition keypointLabel :: "nat \<Rightarrow> string" where
  "keypointLabel n =
     (case element (map fst COCO_KEYPOINTS) n of
        Some key \<Rightarrow> key
      | None \<Rightarrow> ''keypoint_'' @ showNat n)"

text \<open>The loop of \<^verbatim>\<open>fromOpenPoseFormat\<close> from index \<open>i\<close> on; \<open>keypoints'\<close> is the array
  built so far. The fields of an imported keypoint are read from the array and may be
  \<open>undefined\<close>.\<close>

function readKeypoints ::
  "jsnum list \<Rightarrow> nat \<Rightarrow> jsnum option Keypoint list \<Rightarrow> jsnum option Keypoint list" where
  "readKeypoints poseKeypoints i keypoints' =
     (if i < length poseKeypoints
      then readKeypoints poseKeypoints (i + 3)
             (keypoints' @
                [\<lparr>x = element poseKeypoints i,
                  y = element poseKeypoints (i + 1),
                  confidence = element poseKeypoints (i + 2),
                  label = keypointLabel (length keypoints')\<rparr>])
      else keypoints')"
  by pat_completeness auto
termination
  by (relation "measure (\<lambda>(poseKeypoints, i, keypoints'). length poseKeypoints - i)") auto

definition fromOpenPoseFormat :: "OpenPoseData \<Rightarrow> jsnum option PoseData option" where
  "fromOpenPoseFormat openPoseData =
     (case people openPoseData of
        None \<Rightarrow> None
      | Some people' \<Rightarrow>
          (if length people' = 0 then None
           else let person = people' ! 0
                in case pose_keypoints_2d person of
                     None \<Rightarrow> None
                   | Some poseKeypoints \<Rightarrow>
                       (if length poseKeypoints < 51 then None
                        else Some
                          \<lparr>keypoints = readKeypoints poseKeypoints 0 [],
                           skeleton =
                             [(0, 1), (0, 2), (1, 3), (2, 4),
                              (5, 6), (5, 7), (7, 9), (6, 8), (8, 10),
                              (5, 11), (6, 12), (11, 12),
                              (11, 13), (13, 15), (12, 14), (14, 16)],
                           width = Some (Fin 768),
                           height = Some (Fin 768)\<rparr>)))"

text \<open>The keypoint that the import builds at position \<open>i\<close> from a source keypoint.\<close>

definition importedKeypoint :: "nat \<Rightarrow> jsnum Keypoint \<Rightarrow> jsnum option Keypoint" where
  "importedKeypoint i k =
     \<lparr>x = Some (x k), y = Some (y k), confidence = Some (confidence k),
      label = keypointLabel i\<rparr>"

text \<open>\<^verbatim>\<open>validatePoseData\<close> on a value that the import has built: \<^verbatim>\<open>keypoints\<close> and
  \<^verbatim>\<open>skeleton\<close> are arrays and every label is a string, so what the validator still
  decides is that \<^verbatim>\<open>width\<close>, \<^verbatim>\<open>height\<close> and every \<^verbatim>\<open>x\<close>, \<^verbatim>\<open>y\<close> and
  \<^verbatim>\<open>confidence\<close> are numbers, that is, not \<open>undefined\<close>.\<close>

definition validatePoseData :: "jsnum option PoseData \<Rightarrow> bool" where
  "validatePoseData poseData =
     (width poseData \<noteq> None \<and> height poseData \<noteq> None
      \<and> list_all (\<lambda>kp. x kp \<noteq> None \<and> y kp \<noteq> None \<and> confidence kp \<noteq> None)
                  (keypoints poseData))"

text \<open>The keypoint that the loop builds from index \<open>i\<close> of the array as its \<open>n\<close>-th.\<close>

definition readAt :: "jsnum list \<Rightarrow> nat \<Rightarrow> nat \<Rightarrow> jsnum option Keypoint" where
  "readAt a i n =
     \<lparr>x = element a i, y = element a (i + 1), confidence = element a (i + 2),
      label = keypointLabel n\<rparr>"

text \<open>A person with the given \<^verbatim>\<open>pose_keypoints_2d\<close> and the other arrays empty.\<close>

definition personWith :: "jsnum list option \<Rightarrow> Person" where
  "personWith poseKeypoints =
     \<lparr>person_id = [Fin (- 1)], pose_keypoints_2d = poseKeypoints,
      face_keypoints_2d = [], hand_left_keypoints_2d = [], hand_right_keypoints_2d = [],
      pose_keypoints_3d = [], face_keypoints_3d = [], hand_left_keypoints_3d = [],
      hand_right_keypoints_3d = []\<rparr>"

section \<open>Properties of the mirror transform\<close>

lemma sequence_map_Inr:
  "(sequence (map f xs) = Inr ys) =
   (length ys = length xs \<and> (\<forall>i<length xs. f (xs ! i) = Inr (ys ! i)))"
proof (induction xs arbitrary: ys)
  case Nil
  then show ?case by auto
next
  case (Cons a xs)
  show ?case
  proof (cases "f a")
    case (Inl e)
    then show ?thesis by (auto intro!: exI[of _ 0])
  next
    case (Inr v)
    show ?thesis
    proof (cases "sequence (map f xs)")
      case (Inl e)
      with Cons[of "tl ys"] Inr show ?thesis
        by (cases ys) (auto simp: less_Suc_eq_0_disj)
    next
      case r: (Inr vs)
      with Cons[of vs] Cons[of "tl ys"] Inr show ?thesis
        by (cases ys) (auto simp: less_Suc_eq_0_disj)
    qed
  qed
qed

lemma MIRROR_MAPPING_cases:
  "MIRROR_MAPPING i = Some j \<Longrightarrow>
   j < 17 \<and> i < 17 \<and> MIRROR_MAPPING j = Some i \<and> j \<noteq> i"
  by (auto simp: MIRROR_MAPPING_def split: if_splits)

lemma MIRROR_5: "MIRROR_MAPPING 5 = Some 6" and MIRROR_6: "MIRROR_MAPPING 6 = Some 5"
  by (simp_all add: MIRROR_MAPPING_def)

lemma partnersInRange_ge17:
  "17 \<le> length (keypoints P) \<Longrightarrow> partnersInRange P"
proof -
  assume n: "17 \<le> length (keypoints P)"
  have "j < length (keypoints P)" if "MIRROR_MAPPING i = Some j" for i j
    using MIRROR_MAPPING_cases[OF that] n by simp
  then show ?thesis
    by (simp add: partnersInRange_def list_all_iff split: option.splits)
qed

lemma mirrorPose_Inr:
  assumes "partnersInRange P"
  shows "mirrorPose P =
         Inr \<lparr>keypoints = map (mirrorSpec P) [0..<length (keypoints P)],
              skeleton = skeleton P, width = width P, height = height P\<rparr>"
proof -
  have "sequence (map (\<lambda>(index, keypoint). mirrorKeypoint P keypoint index)
                      (enumerate 0 (keypoints P)))
        = Inr (map (mirrorSpec P) [0..<length (keypoints P)])"
    unfolding sequence_map_Inr
  proof (intro conjI allI impI)
    show "length (map (mirrorSpec P) [0..<length (keypoints P)])
          = length (enumerate 0 (keypoints P))"
      by simp
  next
    fix i assume "i < length (enumerate 0 (keypoints P))"
    then have i: "i < length (keypoints P)" by simp
    with assms have "case MIRROR_MAPPING i of
                       None \<Rightarrow> True | Some j \<Rightarrow> j < length (keypoints P)"
      by (simp add: partnersInRange_def list_all_iff)
    with i show "(case enumerate 0 (keypoints P) ! i of
                   (index, keypoint) \<Rightarrow> mirrorKeypoint P keypoint index)
                 = Inr (map (mirrorSpec P) [0..<length (keypoints P)] ! i)"
      by (simp add: nth_enumerate_eq mirrorKeypoint_def mirrorSpec_def Let_def
               split: option.splits)
  qed
  then show ?thesis by (simp add: mirrorPose_def)
qed

lemma mirrorPose_Inl:
  assumes "\<not> partnersInRange P"
  shows "mirrorPose P = Inl TypeError"
proof -
  have "sequence (map (\<lambda>(index, keypoint). mirrorKeypoint P keypoint index)
                      (enumerate 0 (keypoints P))) \<noteq> Inr ys" for ys
  proof
    assume "sequence (map (\<lambda>(index, keypoint). mirrorKeypoint P keypoint index)
                      (enumerate 0 (keypoints P))) = Inr ys"
    then have *: "\<forall>i<length (keypoints P).
                    mirrorKeypoint P (keypoints P ! i) i = Inr (ys ! i)"
      by (simp add: sequence_map_Inr nth_enumerate_eq)
    from assms obtain i j where "i < length (keypoints P)" "MIRROR_MAPPING i = Some j"
      "\<not> j < length (keypoints P)"
      by (auto simp: partnersInRange_def list_all_iff split: option.splits)
    with * show False by (auto simp: mirrorKeypoint_def)
  qed
  then show ?thesis
    by (cases "sequence (map (\<lambda>(index, keypoint). mirrorKeypoint P keypoint index)
                      (enumerate 0 (keypoints P)))")
       (auto simp: mirrorPose_def intro: error.exhaust)
qed

text \<open>The partner table in closed form, and the lengths on which \<open>mirrorPose\<close> succeeds:
  0, every odd length and every length from 17 on.\<close>

lemma MIRROR_MAPPING_partner:
  "MIRROR_MAPPING i = (if 1 \<le> i \<and> i \<le> 16 then Some (if odd i then i + 1 else i - 1) else None)"
proof (cases "i \<le> 16")
  case True
  then have "i \<in> set [0..<17]" by simp
  also have "[0..<17] = [0, 1, 2, 3, 4, 5, 6, 7, 8, 9, 10, 11, 12, 13, 14, 15, 16::nat]"
    by (simp add: upt_rec)
  finally show ?thesis
    by (auto simp: MIRROR_MAPPING_def)
next
  case False
  then show ?thesis by (simp add: MIRROR_MAPPING_def)
qed

lemma partnersInRange_iff:
  "partnersInRange P =
   (length (keypoints P) = 0 \<or> odd (length (keypoints P)) \<or> 17 \<le> length (keypoints P))"
proof (cases "17 \<le> length (keypoints P)")
  case True
  then show ?thesis by (simp add: partnersInRange_ge17)
next
  case False
  show ?thesis
  proof (cases "length (keypoints P) = 0 \<or> odd (length (keypoints P))")
    case True
    have "j < length (keypoints P)" if "i < length (keypoints P)" "MIRROR_MAPPING i = Some j" for i j
      using that True False
      by (auto simp: MIRROR_MAPPING_partner split: if_splits elim!: oddE) 
    then have "partnersInRange P"
      by (auto simp: partnersInRange_def list_all_iff split: option.splits)
    with True show ?thesis by auto
  next
    case e: False
    define n where "n = length (keypoints P)"
    from e False have "even n" "n \<noteq> 0" "n \<le> 16"
      by (simp_all add: n_def)
    then obtain b where b: "n = 2 * b" "1 \<le> b" "b \<le> 8"
      by (auto elim!: evenE)
    then have n: "n - 1 < n" "odd (n - 1)" "1 \<le> n - 1" "n - 1 \<le> 16" "n - 1 + 1 = n"
      by simp_all
    then have "MIRROR_MAPPING (n - 1) = Some n"
      by (simp add: MIRROR_MAPPING_partner)
    with n(1) have "\<not> partnersInRange P"
      unfolding n_def
      by (auto simp: partnersInRange_def list_all_iff split: option.splits)
    with e False show ?thesis by auto
  qed
qed

lemma examplePose_length: "length (keypoints examplePose) = 17"
  by (simp add: examplePose_def)

text \<open>
  C1, amended. On every pose whose mirror partners all lie inside the keypoint array
  (every pose of 17 keypoints is one), \<open>mirrorPose\<close> returns the pose whose keypoint at
  each position \<open>i\<close> is the source keypoint at the partner of \<open>i\<close> (at \<open>i\<close> itself
  without a partner) with \<open>x\<close> replaced by \<open>width - x\<close> and the label of position \<open>i\<close>;
  skeleton, width and height are those of the source. On a pose of 17 keypoints in a
  768 by 768 frame with the left shoulder at (300, 400) and the right shoulder at
  (468, 400), the result has (300, 400) in the left-shoulder slot and (468, 400) in the
  right-shoulder slot. The first part holds for any number type with a subtraction.
\<close>

theorem mirrorPose_by_partner:
  fixes P :: "('n::minus) PoseData" and Q :: "jsnum PoseData"
  shows "(partnersInRange P \<longrightarrow>
            mirrorPose P =
              Inr \<lparr>keypoints = map (mirrorSpec P) [0..<length (keypoints P)],
                   skeleton = skeleton P, width = width P, height = height P\<rparr>)
       \<and> (length (keypoints Q) = 17 \<and> width Q = Fin 768
            \<and> x (keypoints Q ! 5) = Fin 300 \<and> y (keypoints Q ! 5) = Fin 400
            \<and> x (keypoints Q ! 6) = Fin 468 \<and> y (keypoints Q ! 6) = Fin 400 \<longrightarrow>
            (\<exists>R. mirrorPose Q = Inr R
               \<and> x (keypoints R ! 5) = Fin 300 \<and> y (keypoints R ! 5) = Fin 400
               \<and> x (keypoints R ! 6) = Fin 468 \<and> y (keypoints R ! 6) = Fin 400))"
proof (intro conjI impI)
  assume "partnersInRange P"
  then show "mirrorPose P =
              Inr \<lparr>keypoints = map (mirrorSpec P) [0..<length (keypoints P)],
                   skeleton = skeleton P, width = width P, height = height P\<rparr>"
    by (rule mirrorPose_Inr)
next
  assume q: "length (keypoints Q) = 17 \<and> width Q = Fin 768
            \<and> x (keypoints Q ! 5) = Fin 300 \<and> y (keypoints Q ! 5) = Fin 400
            \<and> x (keypoints Q ! 6) = Fin 468 \<and> y (keypoints Q ! 6) = Fin 400"
  then have "partnersInRange Q" by (simp add: partnersInRange_ge17)
  then have m: "mirrorPose Q =
              Inr \<lparr>keypoints = map (mirrorSpec Q) [0..<length (keypoints Q)],
                   skeleton = skeleton Q, width = width Q, height = height Q\<rparr>"
    by (rule mirrorPose_Inr)
  have n5: "map (mirrorSpec Q) [0..<length (keypoints Q)] ! 5 = mirrorSpec Q 5"
    and n6: "map (mirrorSpec Q) [0..<length (keypoints Q)] ! 6 = mirrorSpec Q 6"
    using q by (simp_all del: upt_Suc)
  have "x (mirrorSpec Q 5) = Fin 300" "y (mirrorSpec Q 5) = Fin 400"
       "x (mirrorSpec Q 6) = Fin 468" "y (mirrorSpec Q 6) = Fin 400"
    using q by (simp_all add: mirrorSpec_def MIRROR_5 MIRROR_6 minus_jsnum_def)
  with m n5 n6
  show "\<exists>R. mirrorPose Q = Inr R
               \<and> x (keypoints R ! 5) = Fin 300 \<and> y (keypoints R ! 5) = Fin 400
               \<and> x (keypoints R ! 6) = Fin 468 \<and> y (keypoints R ! 6) = Fin 400"
    by simp
qed

theorem mirrorPose_by_partner_witness:
  "partnersInRange examplePose
   \<and> length (keypoints examplePose) = 17 \<and> width examplePose = Fin 768
   \<and> x (keypoints examplePose ! 5) = Fin 300 \<and> y (keypoints examplePose ! 5) = Fin 400
   \<and> x (keypoints examplePose ! 6) = Fin 468 \<and> y (keypoints examplePose ! 6) = Fin 400
   \<and> mirrorPose examplePose =
       Inr \<lparr>keypoints = map (mirrorSpec examplePose) [0..<length (keypoints examplePose)],
            skeleton = skeleton examplePose, width = width examplePose,
            height = height examplePose\<rparr>
   \<and> (\<exists>R. mirrorPose examplePose = Inr R
         \<and> x (keypoints R ! 5) = Fin 300 \<and> y (keypoints R ! 5) = Fin 400
         \<and> x (keypoints R ! 6) = Fin 468 \<and> y (keypoints R ! 6) = Fin 400)"
proof -
  have p: "partnersInRange examplePose"
    by (rule partnersInRange_ge17) (simp add: examplePose_length)
  have q: "length (keypoints examplePose) = 17 \<and> width examplePose = Fin 768
   \<and> x (keypoints examplePose ! 5) = Fin 300 \<and> y (keypoints examplePose ! 5) = Fin 400
   \<and> x (keypoints examplePose ! 6) = Fin 468 \<and> y (keypoints examplePose ! 6) = Fin 400"
    by (simp add: examplePose_def)
  from mirrorPose_by_partner[of examplePose examplePose] p q show ?thesis
    by blast
qed

text \<open>On a pose of two keypoints the callback of position 1 (the left eye) reads the
  keypoint at index 2, which is \<open>undefined\<close>, and \<open>mirrorPose\<close> raises.\<close>

theorem mirrorPose_two_keypoints_counterexample:
  "mirrorPose
     \<lparr>keypoints =
        [\<lparr>x = Fin 384, y = Fin 200, confidence = Fin 0.9, label = ''nose''\<rparr>,
         \<lparr>x = Fin 370, y = Fin 190, confidence = Fin 0.9, label = ''leftEye''\<rparr>],
      skeleton = [(0, 1)], width = Fin 768, height = Fin 768\<rparr>
   = Inl TypeError"
  by (simp add: mirrorPose_def mirrorKeypoint_def MIRROR_MAPPING_def)

lemma partnersInRange_nth:
  "partnersInRange P \<Longrightarrow> i < length (keypoints P) \<Longrightarrow> MIRROR_MAPPING i = Some j \<Longrightarrow>
   j < length (keypoints P)"
  by (auto simp: partnersInRange_def list_all_iff split: option.splits)

lemma partnersInRange_length:
  "length (keypoints M) = length (keypoints P) \<Longrightarrow> partnersInRange M = partnersInRange P"
  by (simp add: partnersInRange_def cong: option.case_cong)

lemma mirrorSpec_twice:
  fixes P :: "('n::minus) PoseData"
  assumes p: "partnersInRange P"
    and e: "width P - (width P - x (keypoints P ! i)) = x (keypoints P ! i)"
    and i: "i < length (keypoints P)"
    and M: "M = \<lparr>keypoints = map (mirrorSpec P) [0..<length (keypoints P)],
                 skeleton = skeleton P, width = width P, height = height P\<rparr>"
  shows "mirrorSpec M i = keypoints P ! i"
proof (cases "MIRROR_MAPPING i")
  case None
  with i e M show ?thesis
    by (simp add: mirrorSpec_def Let_def del: upt_Suc)
next
  case (Some j)
  then have j: "j < length (keypoints P)" and ji: "MIRROR_MAPPING j = Some i"
    using partnersInRange_nth[OF p i Some] MIRROR_MAPPING_cases[OF Some] by simp_all
  with i e M Some show ?thesis
    by (simp add: mirrorSpec_def Let_def del: upt_Suc)
qed

text \<open>
  C3, amended. On every pose whose mirror partners all lie inside the keypoint array and
  whose \<open>x\<close> coordinates satisfy \<open>width - (width - x) = x\<close> (the two subtractions are
  exact), mirroring twice succeeds and returns the pose itself: every keypoint has its
  \<open>x\<close>, \<open>y\<close>, confidence and label back. The statement holds for any number type with
  a subtraction.
\<close>

theorem mirrorPose_twice:
  fixes P :: "('n::minus) PoseData"
  assumes "partnersInRange P"
    and "list_all (\<lambda>k. width P - (width P - x k) = x k) (keypoints P)"
  shows "\<exists>M. mirrorPose P = Inr M \<and> mirrorPose M = Inr P"
proof -
  define M where "M = \<lparr>keypoints = map (mirrorSpec P) [0..<length (keypoints P)],
                 skeleton = skeleton P, width = width P, height = height P\<rparr>"
  have 1: "mirrorPose P = Inr M"
    unfolding M_def using assms(1) by (rule mirrorPose_Inr)
  have len: "length (keypoints M) = length (keypoints P)"
    by (simp add: M_def)
  then have "partnersInRange M"
    using assms(1) partnersInRange_length[OF len] by simp
  then have 2: "mirrorPose M =
         Inr \<lparr>keypoints = map (mirrorSpec M) [0..<length (keypoints M)],
              skeleton = skeleton M, width = width M, height = height M\<rparr>"
    by (rule mirrorPose_Inr)
  have "map (mirrorSpec M) [0..<length (keypoints M)] = keypoints P"
  proof (rule nth_equalityI)
    show "length (map (mirrorSpec M) [0..<length (keypoints M)]) = length (keypoints P)"
      using len by simp
  next
    fix i assume "i < length (map (mirrorSpec M) [0..<length (keypoints M)])"
    then have i: "i < length (keypoints P)" using len by simp
    with assms(2) have "width P - (width P - x (keypoints P ! i)) = x (keypoints P ! i)"
      by (simp add: list_all_length)
    from mirrorSpec_twice[OF assms(1) this i M_def] i len
    show "map (mirrorSpec M) [0..<length (keypoints M)] ! i = keypoints P ! i"
      by (simp del: upt_Suc)
  qed
  with 2 have "mirrorPose M = Inr P"
    by (simp add: M_def)
  with 1 show ?thesis by blast
qed

theorem mirrorPose_twice_witness:
  "partnersInRange examplePose
   \<and> list_all (\<lambda>k. width examplePose - (width examplePose - x k) = x k) (keypoints examplePose)
   \<and> (\<exists>M. mirrorPose examplePose = Inr M \<and> mirrorPose M = Inr examplePose)"
proof -
  have p: "partnersInRange examplePose"
    by (rule partnersInRange_ge17) (simp add: examplePose_length)
  have e: "list_all (\<lambda>k. width examplePose - (width examplePose - x k) = x k)
             (keypoints examplePose)"
    by (simp add: examplePose_def minus_jsnum_def)
  from mirrorPose_twice[OF p e] p e show ?thesis by blast
qed

text \<open>The first mirror of a pose of four keypoints raises: position 3 (the left ear) has
  its partner at index 4. In a frame of infinite width the second mirror computes
  \<open>Infinity - Infinity\<close>.\<close>

theorem mirrorPose_twice_counterexample:
  "mirrorPose
     \<lparr>keypoints =
        [\<lparr>x = Fin 384, y = Fin 200, confidence = Fin 0.9, label = ''nose''\<rparr>,
         \<lparr>x = Fin 370, y = Fin 190, confidence = Fin 0.9, label = ''leftEye''\<rparr>,
         \<lparr>x = Fin 398, y = Fin 190, confidence = Fin 0.9, label = ''rightEye''\<rparr>,
         \<lparr>x = Fin 355, y = Fin 200, confidence = Fin 0.8, label = ''leftEar''\<rparr>],
      skeleton = [(0, 1), (0, 2), (1, 3)], width = Fin 768, height = Fin 768\<rparr>
   = Inl TypeError
   \<and> mirrorPose
     \<lparr>keypoints = [\<lparr>x = Fin 384, y = Fin 200, confidence = Fin 0.9, label = ''nose''\<rparr>],
      skeleton = [], width = PInf, height = Fin 768\<rparr>
   = Inr \<lparr>keypoints = [\<lparr>x = PInf, y = Fin 200, confidence = Fin 0.9, label = ''nose''\<rparr>],
      skeleton = [], width = PInf, height = Fin 768\<rparr>
   \<and> mirrorPose
     \<lparr>keypoints = [\<lparr>x = PInf, y = Fin 200, confidence = Fin 0.9, label = ''nose''\<rparr>],
      skeleton = [], width = PInf, height = Fin 768\<rparr>
   = Inr \<lparr>keypoints = [\<lparr>x = NaN, y = Fin 200, confidence = Fin 0.9, label = ''nose''\<rparr>],
      skeleton = [], width = PInf, height = Fin 768\<rparr>"
  by (simp add: mirrorPose_def mirrorKeypoint_def MIRROR_MAPPING_def minus_jsnum_def)

section \<open>Properties of the similarity score\<close>

declare similarityLoop.simps [simp del]

lemma sq_diff_sym: "((a::jsnum) - b) * (a - b) = (b - a) * (b - a)"
  by (cases a; cases b; simp add: minus_jsnum_def algebra_simps)

lemma similarityLoop_sym:
  assumes "length (keypoints P) = length (keypoints Q)"
    and "width P * width P + height P * height P = width Q * width Q + height Q * height Q"
  shows "similarityLoop P Q i t v = similarityLoop Q P i t v"
  using assms
proof (induction P Q i t v rule: similarityLoop.induct)
  case (1 pose1 pose2 i totalDistance validPoints)
  show ?case
    apply (subst similarityLoop.simps[of pose1 pose2])
    apply (subst similarityLoop.simps[of pose2 pose1])
    using 1 by (auto simp: Let_def sq_diff_sym[of "x (keypoints pose1 ! i)"]
                  sq_diff_sym[of "y (keypoints pose1 ! i)"])
qed

lemma similarityLoop_none:
  assumes "\<not> list_ex (\<lambda>i. confidence (keypoints P ! i) > Fin 0.5
                  \<and> confidence (keypoints Q ! i) > Fin 0.5) [i..<length (keypoints P)]"
  shows "similarityLoop P Q i t v = (t, v)"
  using assms
proof (induction P Q i t v rule: similarityLoop.induct)
  case (1 pose1 pose2 i totalDistance validPoints)
  show ?case
  proof (cases "i < length (keypoints pose1)")
    case True
    then have u: "[i..<length (keypoints pose1)] = i # [i + 1..<length (keypoints pose1)]"
      by (simp add: upt_conv_Cons)
    with 1 True show ?thesis
      by (subst similarityLoop.simps) (auto simp: Let_def)
  next
    case False
    then show ?thesis by (subst similarityLoop.simps) simp
  qed
qed

lemma nonneg_sqrt: "nonneg (Math_sqrt a)"
  by (cases a) (simp_all add: nonneg_def)

lemma nonneg_div: "nonneg a \<Longrightarrow> nonneg b \<Longrightarrow> nonneg (a / b)"
  by (cases a; cases b; simp add: nonneg_def)

lemma nonneg_add: "nonneg a \<Longrightarrow> nonneg b \<Longrightarrow> nonneg (a + b)"
  by (cases a; cases b; simp add: nonneg_def)

lemma nonneg_mul: "nonneg a \<Longrightarrow> nonneg b \<Longrightarrow> nonneg (a * b)"
  by (cases a; cases b; simp add: nonneg_def)

lemma similarityLoop_nonneg:
  "nonneg t \<Longrightarrow> nonneg (fst (similarityLoop P Q i t v))"
proof (induction P Q i t v rule: similarityLoop.induct)
  case (1 pose1 pose2 i totalDistance validPoints)
  show ?case
    apply (subst similarityLoop.simps)
    using 1 by (auto simp: Let_def nonneg_add nonneg_div nonneg_sqrt)
qed

lemma max_range:
  assumes "nonneg a"
  shows "Math_max (Fin 0) (Fin 1 - a * Fin 5) = NaN
         \<or> (\<exists>r. Math_max (Fin 0) (Fin 1 - a * Fin 5) = Fin r \<and> 0 \<le> r \<and> r \<le> 1)"
  using assms by (cases a) (auto simp: nonneg_def Math_max_def minus_jsnum_def)

lemma calculatePoseSimilarity_range:
  "calculatePoseSimilarity P Q = NaN
   \<or> (\<exists>r. calculatePoseSimilarity P Q = Fin r \<and> 0 \<le> r \<and> r \<le> 1)"
proof -
  obtain t v where tv: "similarityLoop P Q 0 (Fin 0) 0 = (t, v)"
    by (cases "similarityLoop P Q 0 (Fin 0) 0")
  have "nonneg (fst (similarityLoop P Q 0 (Fin 0) 0))"
    by (rule similarityLoop_nonneg) (simp add: nonneg_def)
  with tv have t: "nonneg t" by simp
  have "nonneg (t / Fin (real v))"
    by (rule nonneg_div[OF t]) (simp add: nonneg_def)
  from max_range[OF this] tv show ?thesis
    by (auto simp: calculatePoseSimilarity_def Let_def)
qed

lemma sqrt25: "sqrt 25 = 5" and sqrt100: "sqrt 100 = 10"
  using real_sqrt_abs2[of 5] real_sqrt_abs2[of 10] by simp_all

lemmas similarity_eval =
  calculatePoseSimilarity_def similarityLoop.simps minus_jsnum_def Math_max_def

text \<open>
  C2, amended. For two poses whose frames have the same diagonal (\<open>width * width +
  height * height\<close> is the same for both, as it is when they have the same width and the
  same height), \<open>calculatePoseSimilarity P Q\<close> equals \<open>calculatePoseSimilarity Q P\<close>. The
  distances are normalised by the diagonal of the first argument's frame alone.
\<close>

theorem calculatePoseSimilarity_symmetric:
  assumes "width P * width P + height P * height P = width Q * width Q + height Q * height Q"
  shows "calculatePoseSimilarity P Q = calculatePoseSimilarity Q P"
proof (cases "length (keypoints P) = length (keypoints Q)")
  case True
  from similarityLoop_sym[OF True assms] True show ?thesis
    by (simp add: calculatePoseSimilarity_def)
next
  case False
  then show ?thesis by (auto simp: calculatePoseSimilarity_def)
qed

theorem calculatePoseSimilarity_symmetric_witness:
  "width poseA * width poseA + height poseA * height poseA
     = width poseA' * width poseA' + height poseA' * height poseA'
   \<and> calculatePoseSimilarity poseA poseA' = calculatePoseSimilarity poseA' poseA
   \<and> calculatePoseSimilarity poseA poseA' = Fin 0"
proof -
  have d: "width poseA * width poseA + height poseA * height poseA
     = width poseA' * width poseA' + height poseA' * height poseA'"
    by (simp add: poseA_def poseA'_def)
  have "calculatePoseSimilarity poseA poseA' = Fin 0"
    by (simp add: poseA_def poseA'_def similarity_eval sqrt25)
  with calculatePoseSimilarity_symmetric[OF d] d show ?thesis by simp
qed

text \<open>The same two keypoints, one unit apart: against the 3 by 4 frame of \<open>poseA\<close> the
  score is 0, against the 6 by 8 frame of \<open>poseB\<close> it is 0.5.\<close>

theorem calculatePoseSimilarity_symmetric_counterexample:
  "calculatePoseSimilarity poseA poseB = Fin 0
   \<and> calculatePoseSimilarity poseB poseA = Fin 0.5
   \<and> calculatePoseSimilarity poseA poseB \<noteq> calculatePoseSimilarity poseB poseA"
proof -
  have 1: "calculatePoseSimilarity poseA poseB = Fin 0"
    by (simp add: poseA_def poseB_def similarity_eval sqrt25)
  have 2: "calculatePoseSimilarity poseB poseA = Fin 0.5"
    by (simp add: poseA_def poseB_def similarity_eval sqrt100)
  from 1 2 show ?thesis by simp
qed

text \<open>
  C4. The score of \<open>poseZero\<close> against itself is \<open>NaN\<close>: the distance 0 is divided by
  the diagonal 0 of the frame, and \<^verbatim>\<open>Math.max(0, NaN)\<close> is \<open>NaN\<close>, which is not in the
  interval from 0 to 1.
\<close>

theorem calculatePoseSimilarity_zero_frame:
  "calculatePoseSimilarity poseZero poseZero = NaN"
  by (simp add: poseZero_def similarity_eval)

text \<open>
  C5. \<open>calculatePoseSimilarity\<close> is 0 when the two poses have different numbers of
  keypoints. When they have the same number and no index has both confidences above 0.5,
  the loop ends with \<^verbatim>\<open>validPoints\<close> 0 and the result is 0 before any division. The
  function has no raising branch.
\<close>

theorem calculatePoseSimilarity_zero:
  "(length (keypoints P) \<noteq> length (keypoints Q) \<longrightarrow> calculatePoseSimilarity P Q = Fin 0)
   \<and> (length (keypoints P) = length (keypoints Q) \<and> \<not> anyConfident P Q \<longrightarrow>
        similarityLoop P Q 0 (Fin 0) 0 = (Fin 0, 0)
        \<and> calculatePoseSimilarity P Q = Fin 0)"
proof (intro conjI impI)
  assume "length (keypoints P) \<noteq> length (keypoints Q)"
  then show "calculatePoseSimilarity P Q = Fin 0"
    by (simp add: calculatePoseSimilarity_def)
next
  assume a: "length (keypoints P) = length (keypoints Q) \<and> \<not> anyConfident P Q"
  then have "\<not> anyConfident P Q" by simp
  then show l: "similarityLoop P Q 0 (Fin 0) 0 = (Fin 0, 0)"
    by (intro similarityLoop_none) (simp add: anyConfident_def)
  then show "calculatePoseSimilarity P Q = Fin 0"
    by (simp add: calculatePoseSimilarity_def)
qed

theorem calculatePoseSimilarity_zero_witness:
  "length (keypoints examplePose) \<noteq> length (keypoints poseA)
   \<and> calculatePoseSimilarity examplePose poseA = Fin 0
   \<and> length (keypoints poseLow) = length (keypoints poseA)
   \<and> \<not> anyConfident poseLow poseA
   \<and> similarityLoop poseLow poseA 0 (Fin 0) 0 = (Fin 0, 0)
   \<and> calculatePoseSimilarity poseLow poseA = Fin 0"
proof -
  have 1: "length (keypoints examplePose) \<noteq> length (keypoints poseA)"
    by (simp add: examplePose_def poseA_def)
  have 2: "length (keypoints poseLow) = length (keypoints poseA) \<and> \<not> anyConfident poseLow poseA"
    by (simp add: poseLow_def poseA_def anyConfident_def)
  from calculatePoseSimilarity_zero[of examplePose poseA]
       calculatePoseSimilarity_zero[of poseLow poseA] 1 2
  show ?thesis by blast
qed

section \<open>Properties of the nearest-neighbour search\<close>

lemma isFin_iff: "isFin a = (\<exists>r. a = Fin r)"
  by (cases a) (simp_all add: isFin_def)

lemma comparator_Fin: "(Fin b - Fin a > Fin 0) = (a < b)"
  by (simp add: minus_jsnum_def)

lemma ge_Fin: "(Fin a \<ge> Fin b) = (b \<le> a)"
  by (auto simp: less_eq_jsnum_def)

lemma ge_not_NaN: "(a::jsnum) \<ge> t \<Longrightarrow> a \<noteq> NaN"
  by (cases t; cases a; simp add: less_eq_jsnum_def)

lemma set_insertItem: "set (insertItem a bs) = insert a (set bs)"
  by (induction bs) auto

lemma mset_insertItem: "mset (insertItem a bs) = add_mset a (mset bs)"
  by (induction bs) auto

lemma sorted_insertItem:
  assumes "isFin (similarity a)" and "\<forall>b\<in>set bs. isFin (similarity b)"
    and "sorted_wrt (\<lambda>a b. similarity a \<ge> similarity b) bs"
  shows "sorted_wrt (\<lambda>a b. similarity a \<ge> similarity b) (insertItem a bs)"
  using assms
proof (induction bs)
  case Nil
  then show ?case by simp
next
  case (Cons b bs)
  from Cons.prems obtain ra rb where ra: "similarity a = Fin ra" and rb: "similarity b = Fin rb"
    by (auto simp: isFin_iff)
  show ?case
  proof (cases "ra < rb")
    case True
    with Cons ra rb show ?thesis
      by (auto simp: comparator_Fin set_insertItem ge_Fin)
  next
    case False
    have "similarity a \<ge> similarity c" if "c \<in> set bs" for c
    proof -
      from that Cons.prems obtain rc where rc: "similarity c = Fin rc"
        by (auto simp: isFin_iff)
      from that Cons.prems(3) have "similarity b \<ge> similarity c" by simp
      with rc rb ra False show ?thesis by (simp add: ge_Fin)
    qed
    with False Cons.prems ra rb show ?thesis
      by (auto simp: comparator_Fin ge_Fin)
  qed
qed

lemma filter_insertItem:
  assumes "isFin (similarity a)" and "\<forall>b\<in>set bs. isFin (similarity b)"
  shows "filter (\<lambda>item. similarity item = s) (insertItem a bs)
         = filter (\<lambda>item. similarity item = s) (a # bs)"
  using assms
proof (induction bs)
  case Nil
  then show ?case by simp
next
  case (Cons b bs)
  from Cons.prems obtain ra rb where ra: "similarity a = Fin ra" and rb: "similarity b = Fin rb"
    by (auto simp: isFin_iff)
  with Cons show ?case by (auto simp: comparator_Fin)
qed

lemma sortBySimilarity_props:
  assumes "\<forall>b\<in>set items. isFin (similarity b)"
  shows "mset (sortBySimilarity items) = mset items"
    and "sorted_wrt (\<lambda>a b. similarity a \<ge> similarity b) (sortBySimilarity items)"
    and "filter (\<lambda>item. similarity item = s) (sortBySimilarity items)
         = filter (\<lambda>item. similarity item = s) items"
  using assms
proof (induction items)
  case Nil
  case 1 show ?case by (simp add: sortBySimilarity_def)
  case 2 show ?case by (simp add: sortBySimilarity_def)
  case 3 show ?case by (simp add: sortBySimilarity_def)
next
  case (Cons a items)
  have u: "sortBySimilarity (a # items) = insertItem a (sortBySimilarity items)"
    by (simp add: sortBySimilarity_def)
  case 1
  then have m: "mset (sortBySimilarity items) = mset items" using Cons.IH(1) by simp
  then show ?case by (simp add: u mset_insertItem)
  case 2
  then have m: "mset (sortBySimilarity items) = mset items"
    and s: "sorted_wrt (\<lambda>a b. similarity a \<ge> similarity b) (sortBySimilarity items)"
    using Cons.IH(1,2) by simp_all
  from m have "set (sortBySimilarity items) = set items" by (rule mset_eq_setD)
  with 2 s show ?case by (simp add: u sorted_insertItem)
  case 3
  then have m: "mset (sortBySimilarity items) = mset items"
    and f: "filter (\<lambda>item. similarity item = s) (sortBySimilarity items)
         = filter (\<lambda>item. similarity item = s) items"
    using Cons.IH(1,3) by simp_all
  from m have "set (sortBySimilarity items) = set items" by (rule mset_eq_setD)
  with 3 f show ?case by (simp add: u filter_insertItem)
qed

lemma qualifying_isFin:
  "\<forall>b\<in>set (qualifying targetPose poses threshold). isFin (similarity b)"
proof
  fix b assume "b \<in> set (qualifying targetPose poses threshold)"
  then obtain p where "p \<in> set poses"
    and b: "similarity b = calculatePoseSimilarity targetPose p"
    and g: "similarity b \<ge> threshold"
    by (auto simp: qualifying_def)
  from g have "similarity b \<noteq> NaN" by (rule ge_not_NaN)
  with b calculatePoseSimilarity_range[of targetPose p] show "isFin (similarity b)"
    by (auto simp: isFin_iff)
qed

lemma take_min_length: "take (min n (length xs)) xs = take n xs"
  by (simp add: min_def)

lemma findSimilarPoses_defaults:
  "findSimilarPoses targetPose poses None None
   = findSimilarPoses targetPose poses (Some (Fin 0.7)) (Some (Fin 5))"
  by (simp add: findSimilarPoses_def)

lemma sliceEnd_PInf: "sliceEnd len PInf = len"
  by (simp add: sliceEnd_def)

lemma sliceEnd_nonneg: "0 \<le> m \<Longrightarrow> sliceEnd len (Fin m) = min (nat \<lfloor>m\<rfloor>) len"
  by (simp add: sliceEnd_def)

lemma findSimilarPoses_result:
  assumes "maxResults \<ge> Fin 0"
  shows "\<exists>L. mset L = mset (qualifying targetPose poses threshold)
           \<and> sorted_wrt (\<lambda>a b. similarity a \<ge> similarity b) L
           \<and> (\<forall>s. filter (\<lambda>item. similarity item = s) L
                    = filter (\<lambda>item. similarity item = s)
                        (qualifying targetPose poses threshold))
           \<and> (\<forall>m. maxResults = Fin m \<longrightarrow>
                  findSimilarPoses targetPose poses (Some threshold) (Some maxResults)
                  = take (nat \<lfloor>m\<rfloor>) L)
           \<and> (maxResults = PInf \<longrightarrow>
                  findSimilarPoses targetPose poses (Some threshold) (Some maxResults) = L)
           \<and> Fin (real (length
                  (findSimilarPoses targetPose poses (Some threshold) (Some maxResults))))
               \<le> maxResults"
proof -
  let ?Q = "qualifying targetPose poses threshold"
  let ?L = "sortBySimilarity ?Q"
  let ?R = "findSimilarPoses targetPose poses (Some threshold) (Some maxResults)"
  note fin = qualifying_isFin[of targetPose poses threshold]
  have R: "?R = take (sliceEnd (length ?L) maxResults) ?L"
    by (simp add: findSimilarPoses_def qualifying_def slice0_def)
  have 1: "?R = take (nat \<lfloor>m\<rfloor>) ?L" if "maxResults = Fin m" for m
  proof -
    from that assms have "0 \<le> m" by (simp add: ge_Fin)
    with that R show ?thesis by (simp add: sliceEnd_nonneg take_min_length)
  qed
  have 2: "?R = ?L" if "maxResults = PInf"
    using that R by (simp add: sliceEnd_PInf)
  have 3: "Fin (real (length ?R)) \<le> maxResults"
  proof (cases maxResults)
    case (Fin m)
    from Fin assms have m: "0 \<le> m" by (simp add: ge_Fin)
    have "length (take (nat \<lfloor>m\<rfloor>) ?L) \<le> nat \<lfloor>m\<rfloor>" by simp
    then have "real (length (take (nat \<lfloor>m\<rfloor>) ?L)) \<le> real (nat \<lfloor>m\<rfloor>)"
      by (simp only: of_nat_le_iff)
    also have "\<dots> \<le> m" using m by simp
    finally have "real (length (take (nat \<lfloor>m\<rfloor>) ?L)) \<le> m" .
    with Fin 1[OF Fin] show ?thesis by (simp add: ge_Fin)
  next
    case PInf
    then show ?thesis by (simp add: less_eq_jsnum_def)
  next
    case NInf
    with assms show ?thesis by (simp add: less_eq_jsnum_def)
  next
    case NaN
    with assms show ?thesis by (simp add: less_eq_jsnum_def)
  qed
  from sortBySimilarity_props[OF fin] 1 2 3 show ?thesis
    by (intro exI[of _ ?L]) simp
qed

lemma findSimilarPosesIn_frame:
  assumes "poses < length store"
  shows "case findSimilarPosesIn store targetPose poses thresholdArg maxResultsArg of
           (store', similarities) \<Rightarrow>
             take (length store) store' = store
             \<and> similarities < length store'
             \<and> store' ! similarities
                 = ItemArray (findSimilarPoses targetPose (poseArray (store ! poses))
                                thresholdArg maxResultsArg)"
  using assms
  by (simp add: findSimilarPosesIn_def findSimilarPoses_def alloc_def Let_def nth_append)

text \<open>
  C6, amended. For every target pose, candidate list, threshold and every \<open>maxResults\<close>
  that is not below 0 (a number from 0 on, or \<open>Infinity\<close>), \<open>findSimilarPoses\<close>
  returns the first \<open>\<lfloor>maxResults\<rfloor>\<close> entries (all of them for \<open>Infinity\<close>) of a list
  \<open>L\<close> that holds exactly the candidates whose similarity to the target is at or above
  the threshold, each paired with its score (\<open>qualifying\<close>), in descending similarity,
  the entries of equal score in their input order; so it returns at most \<open>maxResults\<close>
  entries. Run on a store that holds the candidate array, it leaves every array of that
  store as it was and returns a new array: \<^verbatim>\<open>sort\<close> overwrites only the array that
  \<^verbatim>\<open>filter\<close> has just allocated.
\<close>

theorem findSimilarPoses_sorted_prefix:
  assumes "maxResults \<ge> Fin 0"
  shows "(\<exists>L. mset L = mset (qualifying targetPose poses threshold)
           \<and> sorted_wrt (\<lambda>a b. similarity a \<ge> similarity b) L
           \<and> (\<forall>s. filter (\<lambda>item. similarity item = s) L
                    = filter (\<lambda>item. similarity item = s)
                        (qualifying targetPose poses threshold))
           \<and> (\<forall>m. maxResults = Fin m \<longrightarrow>
                  findSimilarPoses targetPose poses (Some threshold) (Some maxResults)
                  = take (nat \<lfloor>m\<rfloor>) L)
           \<and> (maxResults = PInf \<longrightarrow>
                  findSimilarPoses targetPose poses (Some threshold) (Some maxResults) = L)
           \<and> Fin (real (length
                  (findSimilarPoses targetPose poses (Some threshold) (Some maxResults))))
               \<le> maxResults)
       \<and> (ref < length store \<and> store ! ref = PoseArray poses \<longrightarrow>
            (case findSimilarPosesIn store targetPose ref (Some threshold) (Some maxResults) of
               (store', similarities) \<Rightarrow>
                 take (length store) store' = store
                 \<and> store' ! similarities
                     = ItemArray (findSimilarPoses targetPose poses
                                    (Some threshold) (Some maxResults))))"
proof (intro conjI impI)
  show "\<exists>L. mset L = mset (qualifying targetPose poses threshold)
           \<and> sorted_wrt (\<lambda>a b. similarity a \<ge> similarity b) L
           \<and> (\<forall>s. filter (\<lambda>item. similarity item = s) L
                    = filter (\<lambda>item. similarity item = s)
                        (qualifying targetPose poses threshold))
           \<and> (\<forall>m. maxResults = Fin m \<longrightarrow>
                  findSimilarPoses targetPose poses (Some threshold) (Some maxResults)
                  = take (nat \<lfloor>m\<rfloor>) L)
           \<and> (maxResults = PInf \<longrightarrow>
                  findSimilarPoses targetPose poses (Some threshold) (Some maxResults) = L)
           \<and> Fin (real (length
                  (findSimilarPoses targetPose poses (Some threshold) (Some maxResults))))
               \<le> maxResults"
    using assms by (rule findSimilarPoses_result)
next
  assume s: "ref < length store \<and> store ! ref = PoseArray poses"
  then have "ref < length store" by simp
  from findSimilarPosesIn_frame[OF this, of targetPose "Some threshold" "Some maxResults"] s
  show "case findSimilarPosesIn store targetPose ref (Some threshold) (Some maxResults) of
               (store', similarities) \<Rightarrow>
                 take (length store) store' = store
                 \<and> store' ! similarities
                     = ItemArray (findSimilarPoses targetPose poses
                                    (Some threshold) (Some maxResults))"
    by (auto split: prod.splits)
qed

lemma candidate_scores:
  "calculatePoseSimilarity poseA (candidate ''far'' 1) = Fin 0"
  "calculatePoseSimilarity poseA (candidate ''near'' (1/2)) = Fin (1/2)"
  "calculatePoseSimilarity poseA (candidate ''same'' 0) = Fin 1"
  "calculatePoseSimilarity poseA (candidate ''near2'' (-(1/2))) = Fin (1/2)"
  by (simp_all add: candidate_def poseA_def similarity_eval sqrt25 real_sqrt_divide)

lemma ceiling_minus_one: "\<lceil>- 1 :: real\<rceil> = - 1"
  using ceiling_of_int[of "- 1", where ?'a = real] by simp

theorem findSimilarPoses_sorted_prefix_witness:
  "Fin 2 \<ge> Fin 0
   \<and> (\<exists>L. mset L = mset (qualifying poseA exampleCandidates (Fin (1/2)))
           \<and> sorted_wrt (\<lambda>a b. similarity a \<ge> similarity b) L
           \<and> (\<forall>s. filter (\<lambda>item. similarity item = s) L
                    = filter (\<lambda>item. similarity item = s)
                        (qualifying poseA exampleCandidates (Fin (1/2))))
           \<and> findSimilarPoses poseA exampleCandidates (Some (Fin (1/2))) (Some (Fin 2))
               = take (nat \<lfloor>2::real\<rfloor>) L)
   \<and> findSimilarPoses poseA exampleCandidates (Some (Fin (1/2))) (Some (Fin 2))
       = [\<lparr>pose = candidate ''same'' 0, similarity = Fin 1\<rparr>,
          \<lparr>pose = candidate ''near'' (1/2), similarity = Fin (1/2)\<rparr>]
   \<and> (0::nat) < length [PoseArray exampleCandidates]
   \<and> take 1 (fst (findSimilarPosesIn [PoseArray exampleCandidates] poseA 0
                      (Some (Fin (1/2))) (Some (Fin 2))))
       = [PoseArray exampleCandidates]
   \<and> fst (findSimilarPosesIn [PoseArray exampleCandidates] poseA 0
             (Some (Fin (1/2))) (Some (Fin 2)))
       ! snd (findSimilarPosesIn [PoseArray exampleCandidates] poseA 0
                (Some (Fin (1/2))) (Some (Fin 2)))
       = ItemArray [\<lparr>pose = candidate ''same'' 0, similarity = Fin 1\<rparr>,
                    \<lparr>pose = candidate ''near'' (1/2), similarity = Fin (1/2)\<rparr>]"
proof -
  have h: "Fin 2 \<ge> Fin 0" by (simp add: ge_Fin)
  have e: "findSimilarPoses poseA exampleCandidates (Some (Fin (1/2))) (Some (Fin 2))
       = [\<lparr>pose = candidate ''same'' 0, similarity = Fin 1\<rparr>,
          \<lparr>pose = candidate ''near'' (1/2), similarity = Fin (1/2)\<rparr>]"
    by (simp add: findSimilarPoses_def exampleCandidates_def candidate_scores
          less_eq_jsnum_def sortBySimilarity_def minus_jsnum_def slice0_def sliceEnd_def)
  note t = findSimilarPoses_sorted_prefix[OF h, of poseA exampleCandidates "Fin (1/2)"
             0 "[PoseArray exampleCandidates]"]
  from t obtain L where L: "mset L = mset (qualifying poseA exampleCandidates (Fin (1/2)))"
      "sorted_wrt (\<lambda>a b. similarity a \<ge> similarity b) L"
      "\<forall>s. filter (\<lambda>item. similarity item = s) L
                    = filter (\<lambda>item. similarity item = s)
                        (qualifying poseA exampleCandidates (Fin (1/2)))"
      "findSimilarPoses poseA exampleCandidates (Some (Fin (1/2))) (Some (Fin 2))
               = take (nat \<lfloor>2::real\<rfloor>) L"
    by blast
  from t have s: "take 1 (fst (findSimilarPosesIn [PoseArray exampleCandidates] poseA 0
                      (Some (Fin (1/2))) (Some (Fin 2))))
       = [PoseArray exampleCandidates]"
    "fst (findSimilarPosesIn [PoseArray exampleCandidates] poseA 0
             (Some (Fin (1/2))) (Some (Fin 2)))
       ! snd (findSimilarPosesIn [PoseArray exampleCandidates] poseA 0
                (Some (Fin (1/2))) (Some (Fin 2)))
       = ItemArray (findSimilarPoses poseA exampleCandidates (Some (Fin (1/2))) (Some (Fin 2)))"
    by (simp_all split: prod.splits)
  from L h e s show ?thesis by (simp only: list.size) blast
qed

text \<open>With \<open>maxResults = -1\<close> and all four candidates at or above the threshold 0,
  \<^verbatim>\<open>slice(0, -1)\<close> drops the last entry of the sorted list and three entries are
  returned.\<close>

theorem findSimilarPoses_negative_counterexample:
  "findSimilarPoses poseA exampleCandidates (Some (Fin 0)) (Some (Fin (- 1)))
     = [\<lparr>pose = candidate ''same'' 0, similarity = Fin 1\<rparr>,
        \<lparr>pose = candidate ''near'' (1/2), similarity = Fin (1/2)\<rparr>,
        \<lparr>pose = candidate ''near2'' (- (1/2)), similarity = Fin (1/2)\<rparr>]
   \<and> length (findSimilarPoses poseA exampleCandidates (Some (Fin 0)) (Some (Fin (- 1)))) = 3"
  by (simp add: findSimilarPoses_def exampleCandidates_def candidate_scores
        less_eq_jsnum_def sortBySimilarity_def minus_jsnum_def slice0_def sliceEnd_def
        ceiling_minus_one)

section \<open>Properties of the composition and of the variations\<close>

lemma mirrorPose_poseA:
  "mirrorPose poseA =
     Inr \<lparr>keypoints = [\<lparr>x = Fin 3, y = Fin 0, confidence = Fin 1, label = ''nose''\<rparr>],
          skeleton = [], width = Fin 3, height = Fin 4\<rparr>"
  by (simp add: poseA_def mirrorPose_def mirrorKeypoint_def MIRROR_MAPPING_def minus_jsnum_def)

lemma rotatePose_NaN:
  "rotatePose poseA NaN =
     \<lparr>keypoints = [\<lparr>x = NaN, y = NaN, confidence = Fin 1, label = ''nose''\<rparr>],
      skeleton = [], width = Fin 3, height = Fin 4\<rparr>"
  by (simp add: rotatePose_def poseA_def minus_jsnum_def Math_PI_def)

lemma rotatePose_zero_poseInf:
  "rotatePose poseInf (Fin 0) =
     \<lparr>keypoints = [\<lparr>x = PInf, y = NaN, confidence = Fin 1, label = ''nose''\<rparr>],
      skeleton = [], width = Fin 3, height = Fin 4\<rparr>"
  by (simp add: rotatePose_def poseInf_def minus_jsnum_def Math_PI_def)

text \<open>
  C7, amended. \<open>transformPose\<close> is the composition \<open>transformSpec\<close>: \<open>mirrorPose\<close> first
  when \<^verbatim>\<open>mirror\<close> is \<open>true\<close>, then \<open>scalePose\<close> on that result when \<^verbatim>\<open>scale\<close> is given,
  then \<open>rotatePose\<close> on that result when \<^verbatim>\<open>rotation\<close> is given; an exception of
  \<open>mirrorPose\<close> is the exception of the call. This holds whenever the rotation is not
  given as \<open>0\<close> or \<open>NaN\<close>. A rotation given as \<open>0\<close> or \<open>NaN\<close> is skipped: the result is
  that of the same configuration without the rotation. Every step whose field is left out
  returns its argument, and with all three left out the result is the input pose.
\<close>

theorem transformPose_composition:
  "(rotation t \<noteq> Some (Fin 0) \<and> rotation t \<noteq> Some NaN \<longrightarrow>
      transformPose P t = transformSpec P t)
   \<and> (rotation t = Some (Fin 0) \<or> rotation t = Some NaN \<longrightarrow>
        transformPose P t = transformSpec P (t\<lparr>rotation := None\<rparr>))
   \<and> (mirror t = Some True \<longrightarrow> mirrorStep t P = mirrorPose P)
   \<and> (mirror t \<noteq> Some True \<longrightarrow> mirrorStep t P = Inr P)
   \<and> (scale t = Some (w, h) \<longrightarrow> scaleStep t P = scalePose P w h)
   \<and> (scale t = None \<longrightarrow> scaleStep t P = P)
   \<and> (rotation t = Some a \<longrightarrow> rotateStep t P = rotatePose P a)
   \<and> (rotation t = None \<longrightarrow> rotateStep t P = P)
   \<and> (mirror t = None \<and> scale t = None \<and> rotation t = None \<longrightarrow> transformPose P t = Inr P)"
  by (auto simp: transformPose_def transformSpec_def mirrorStep_def scaleStep_def
        rotateStep_def truthy_def Let_def split: sum.splits option.splits)

theorem transformPose_composition_witness:
  "transformPose poseA \<lparr>mirror = None, scale = None, rotation = None\<rparr> = Inr poseA
   \<and> transformPose poseA
        \<lparr>mirror = Some True, scale = Some (Fin 6, Fin 8), rotation = Some (Fin 90)\<rparr>
     = Inr (rotatePose
              (scalePose
                 \<lparr>keypoints = [\<lparr>x = Fin 3, y = Fin 0, confidence = Fin 1, label = ''nose''\<rparr>],
                  skeleton = [], width = Fin 3, height = Fin 4\<rparr>
                 (Fin 6) (Fin 8))
              (Fin 90))
   \<and> transformPose poseA
        \<lparr>mirror = Some False, scale = Some (Fin 6, Fin 8), rotation = Some (Fin 0)\<rparr>
     = Inr (scalePose poseA (Fin 6) (Fin 8))"
proof -
  have 1: "transformPose poseA \<lparr>mirror = None, scale = None, rotation = None\<rparr> = Inr poseA"
    using transformPose_composition[of "\<lparr>mirror = None, scale = None, rotation = None\<rparr>" poseA]
    by (simp add: transformSpec_def mirrorStep_def scaleStep_def rotateStep_def)
  have 2: "transformPose poseA
        \<lparr>mirror = Some True, scale = Some (Fin 6, Fin 8), rotation = Some (Fin 90)\<rparr>
     = Inr (rotatePose
              (scalePose
                 \<lparr>keypoints = [\<lparr>x = Fin 3, y = Fin 0, confidence = Fin 1, label = ''nose''\<rparr>],
                  skeleton = [], width = Fin 3, height = Fin 4\<rparr>
                 (Fin 6) (Fin 8))
              (Fin 90))"
    using transformPose_composition[of
        "\<lparr>mirror = Some True, scale = Some (Fin 6, Fin 8), rotation = Some (Fin 90)\<rparr>" poseA]
    by (simp add: transformSpec_def mirrorStep_def scaleStep_def rotateStep_def
          mirrorPose_poseA)
  have 3: "transformPose poseA
        \<lparr>mirror = Some False, scale = Some (Fin 6, Fin 8), rotation = Some (Fin 0)\<rparr>
     = Inr (scalePose poseA (Fin 6) (Fin 8))"
    using transformPose_composition[of
        "\<lparr>mirror = Some False, scale = Some (Fin 6, Fin 8), rotation = Some (Fin 0)\<rparr>" poseA]
    by (simp add: transformSpec_def mirrorStep_def scaleStep_def rotateStep_def)
  from 1 2 3 show ?thesis by simp
qed

text \<open>A rotation given as \<open>NaN\<close> is skipped, where \<open>rotatePose\<close> returns \<open>NaN\<close>
  coordinates; a rotation given as \<open>0\<close> is skipped, where \<open>rotatePose\<close> turns the \<open>y\<close>
  of a keypoint at \<open>x = Infinity\<close> into \<open>NaN\<close> (\<open>Infinity * 0\<close>).\<close>

theorem transformPose_rotation_counterexample:
  "transformPose poseA \<lparr>mirror = None, scale = None, rotation = Some NaN\<rparr> = Inr poseA
   \<and> transformSpec poseA \<lparr>mirror = None, scale = None, rotation = Some NaN\<rparr>
       = Inr \<lparr>keypoints = [\<lparr>x = NaN, y = NaN, confidence = Fin 1, label = ''nose''\<rparr>],
              skeleton = [], width = Fin 3, height = Fin 4\<rparr>
   \<and> transformPose poseA \<lparr>mirror = None, scale = None, rotation = Some NaN\<rparr>
       \<noteq> transformSpec poseA \<lparr>mirror = None, scale = None, rotation = Some NaN\<rparr>
   \<and> transformPose poseInf \<lparr>mirror = None, scale = None, rotation = Some (Fin 0)\<rparr>
       = Inr poseInf
   \<and> transformSpec poseInf \<lparr>mirror = None, scale = None, rotation = Some (Fin 0)\<rparr>
       = Inr \<lparr>keypoints = [\<lparr>x = PInf, y = NaN, confidence = Fin 1, label = ''nose''\<rparr>],
              skeleton = [], width = Fin 3, height = Fin 4\<rparr>
   \<and> transformPose poseInf \<lparr>mirror = None, scale = None, rotation = Some (Fin 0)\<rparr>
       \<noteq> transformSpec poseInf \<lparr>mirror = None, scale = None, rotation = Some (Fin 0)\<rparr>"
proof -
  have 1: "transformPose poseA \<lparr>mirror = None, scale = None, rotation = Some NaN\<rparr> = Inr poseA"
    and 2: "transformPose poseInf \<lparr>mirror = None, scale = None, rotation = Some (Fin 0)\<rparr>
       = Inr poseInf"
    by (simp_all add: transformPose_def truthy_def)
  have 3: "transformSpec poseA \<lparr>mirror = None, scale = None, rotation = Some NaN\<rparr>
       = Inr \<lparr>keypoints = [\<lparr>x = NaN, y = NaN, confidence = Fin 1, label = ''nose''\<rparr>],
              skeleton = [], width = Fin 3, height = Fin 4\<rparr>"
    by (simp add: transformSpec_def mirrorStep_def scaleStep_def rotateStep_def rotatePose_NaN)
  have 4: "transformSpec poseInf \<lparr>mirror = None, scale = None, rotation = Some (Fin 0)\<rparr>
       = Inr \<lparr>keypoints = [\<lparr>x = PInf, y = NaN, confidence = Fin 1, label = ''nose''\<rparr>],
              skeleton = [], width = Fin 3, height = Fin 4\<rparr>"
    by (simp add: transformSpec_def mirrorStep_def scaleStep_def rotateStep_def
          rotatePose_zero_poseInf)
  have 5: "poseA \<noteq> \<lparr>keypoints = [\<lparr>x = NaN, y = NaN, confidence = Fin 1, label = ''nose''\<rparr>],
              skeleton = [], width = Fin 3, height = Fin 4\<rparr>"
    and 6: "poseInf \<noteq> \<lparr>keypoints = [\<lparr>x = PInf, y = NaN, confidence = Fin 1, label = ''nose''\<rparr>],
              skeleton = [], width = Fin 3, height = Fin 4\<rparr>"
    by (simp_all add: poseA_def poseInf_def)
  from 1 2 3 4 5 6 show ?thesis by simp
qed

text \<open>
  C10, amended. On every pose whose mirror partners all lie inside the keypoint array,
  \<open>generatePoseVariations\<close> returns six entries in this order, with the identifiers
  \<open>original\<close>, \<open>mirrored\<close>, \<open>scaled-small\<close>, \<open>scaled-large\<close>, \<open>rotated-15\<close> and
  \<open>rotated-minus-15\<close>, each with its title and transformation tag (the tag of the sixth is
  \<open>rotate--15\<close>), and with the poses: the input, its mirror, the input scaled to 0.8 and
  to 1.2 times its width and height, and the input rotated by 15 and by -15 degrees. The
  result is a function of the input alone.
\<close>

theorem generatePoseVariations_catalog:
  assumes "partnersInRange P"
  shows "\<exists>M. mirrorPose P = Inr M
     \<and> generatePoseVariations P =
         Inr [\<lparr>id' = ''original'', title = ''Original'', poseData' = P,
               transformation = ''none''\<rparr>,
              \<lparr>id' = ''mirrored'', title = ''Mirrored'', poseData' = M,
               transformation = ''mirror''\<rparr>,
              \<lparr>id' = ''scaled-small'', title = ''Scaled 80%'',
               poseData' = scalePose P (width P * Fin 0.8) (height P * Fin 0.8),
               transformation = ''scale-0.8''\<rparr>,
              \<lparr>id' = ''scaled-large'', title = ''Scaled 120%'',
               poseData' = scalePose P (width P * Fin 1.2) (height P * Fin 1.2),
               transformation = ''scale-1.2''\<rparr>,
              \<lparr>id' = ''rotated-15'', title = ''Rotated 15'' @ [CHR 0xB0],
               poseData' = rotatePose P (Fin 15), transformation = ''rotate-15''\<rparr>,
              \<lparr>id' = ''rotated-minus-15'', title = ''Rotated -15'' @ [CHR 0xB0],
               poseData' = rotatePose P (Fin (- 15)), transformation = ''rotate--15''\<rparr>]"
  using mirrorPose_Inr[OF assms] by (simp add: generatePoseVariations_def)

lemma partnersInRange_poseA: "partnersInRange poseA"
  by (simp add: partnersInRange_def poseA_def MIRROR_MAPPING_def)

theorem generatePoseVariations_catalog_witness:
  "partnersInRange poseA
   \<and> (\<exists>M. mirrorPose poseA = Inr M
     \<and> generatePoseVariations poseA =
         Inr [\<lparr>id' = ''original'', title = ''Original'', poseData' = poseA,
               transformation = ''none''\<rparr>,
              \<lparr>id' = ''mirrored'', title = ''Mirrored'', poseData' = M,
               transformation = ''mirror''\<rparr>,
              \<lparr>id' = ''scaled-small'', title = ''Scaled 80%'',
               poseData' = scalePose poseA (width poseA * Fin 0.8) (height poseA * Fin 0.8),
               transformation = ''scale-0.8''\<rparr>,
              \<lparr>id' = ''scaled-large'', title = ''Scaled 120%'',
               poseData' = scalePose poseA (width poseA * Fin 1.2) (height poseA * Fin 1.2),
               transformation = ''scale-1.2''\<rparr>,
              \<lparr>id' = ''rotated-15'', title = ''Rotated 15'' @ [CHR 0xB0],
               poseData' = rotatePose poseA (Fin 15), transformation = ''rotate-15''\<rparr>,
              \<lparr>id' = ''rotated-minus-15'', title = ''Rotated -15'' @ [CHR 0xB0],
               poseData' = rotatePose poseA (Fin (- 15)), transformation = ''rotate--15''\<rparr>])"
  using generatePoseVariations_catalog[OF partnersInRange_poseA] partnersInRange_poseA
  by simp

text \<open>The identifier of the sixth entry is \<open>rotated-minus-15\<close>, not \<open>rotated--15\<close>, and
  on a pose of two keypoints the call raises.\<close>

theorem generatePoseVariations_counterexample:
  "map id' (projr (generatePoseVariations poseA))
     = [''original'', ''mirrored'', ''scaled-small'', ''scaled-large'', ''rotated-15'',
        ''rotated-minus-15'']
   \<and> map id' (projr (generatePoseVariations poseA)) ! 5 \<noteq> ''rotated--15''
   \<and> isl (generatePoseVariations poseA) = False
   \<and> generatePoseVariations
       \<lparr>keypoints =
          [\<lparr>x = Fin 384, y = Fin 200, confidence = Fin 0.9, label = ''nose''\<rparr>,
           \<lparr>x = Fin 370, y = Fin 190, confidence = Fin 0.9, label = ''leftEye''\<rparr>],
        skeleton = [(0, 1)], width = Fin 768, height = Fin 768\<rparr>
     = Inl TypeError"
proof -
  have 1: "map id' (projr (generatePoseVariations poseA))
     = [''original'', ''mirrored'', ''scaled-small'', ''scaled-large'', ''rotated-15'',
        ''rotated-minus-15'']"
    and 2: "isl (generatePoseVariations poseA) = False"
    by (simp_all add: generatePoseVariations_def mirrorPose_poseA)
  have 3: "generatePoseVariations
       \<lparr>keypoints =
          [\<lparr>x = Fin 384, y = Fin 200, confidence = Fin 0.9, label = ''nose''\<rparr>,
           \<lparr>x = Fin 370, y = Fin 190, confidence = Fin 0.9, label = ''leftEye''\<rparr>],
        skeleton = [(0, 1)], width = Fin 768, height = Fin 768\<rparr>
     = Inl TypeError"
    by (simp add: generatePoseVariations_def mirrorPose_def mirrorKeypoint_def
          MIRROR_MAPPING_def)
  from 1 2 3 show ?thesis by simp
qed

section \<open>Properties of the OpenPose interchange\<close>

declare readKeypoints.simps [simp del] showNat.simps [simp del]

lemma flat_length:
  "length (concat (map (\<lambda>kp. [x kp, y kp, confidence kp]) ks)) = 3 * length ks"
  by (induction ks) auto

lemma flat_nth:
  "j < length ks \<Longrightarrow>
   concat (map (\<lambda>kp. [x kp, y kp, confidence kp]) ks) ! (3 * j) = x (ks ! j)
   \<and> concat (map (\<lambda>kp. [x kp, y kp, confidence kp]) ks) ! (3 * j + 1) = y (ks ! j)
   \<and> concat (map (\<lambda>kp. [x kp, y kp, confidence kp]) ks) ! (3 * j + 2) = confidence (ks ! j)"
proof (induction ks arbitrary: j)
  case Nil
  then show ?case by simp
next
  case (Cons k ks)
  show ?case
  proof (cases j)
    case 0
    then show ?thesis by simp
  next
    case (Suc j')
    with Cons.prems have "j' < length ks" by simp
    from Cons.IH[OF this] Suc show ?thesis
      by (simp add: numeral_3_eq_3)
  qed
qed

lemma readKeypoints_flat:
  assumes "j \<le> length ks"
  shows "readKeypoints (concat (map (\<lambda>kp. [x kp, y kp, confidence kp]) ks)) (3 * j)
           (map (\<lambda>i. importedKeypoint i (ks ! i)) [0..<j])
         = map (\<lambda>i. importedKeypoint i (ks ! i)) [0..<length ks]"
  using assms
proof (induction "length ks - j" arbitrary: j)
  case 0
  then have "j = length ks" by simp
  then show ?case
    by (subst readKeypoints.simps) (simp add: flat_length)
next
  case (Suc n)
  then have j: "j < length ks" and n: "n = length ks - (j + 1)" and j1: "j + 1 \<le> length ks"
    by simp_all
  have step: "map (\<lambda>i. importedKeypoint i (ks ! i)) [0..<j]
               @ [\<lparr>x = element (concat (map (\<lambda>kp. [x kp, y kp, confidence kp]) ks)) (3 * j),
                   y = element (concat (map (\<lambda>kp. [x kp, y kp, confidence kp]) ks)) (3 * j + 1),
                   confidence = element (concat (map (\<lambda>kp. [x kp, y kp, confidence kp]) ks)) (3 * j + 2),
                   label = keypointLabel (length (map (\<lambda>i. importedKeypoint i (ks ! i)) [0..<j]))\<rparr>]
             = map (\<lambda>i. importedKeypoint i (ks ! i)) [0..<j + 1]"
    using j flat_nth[OF j] by (simp add: element_def flat_length importedKeypoint_def)
  have "3 * j < length (concat (map (\<lambda>kp. [x kp, y kp, confidence kp]) ks))"
    using j by (simp add: flat_length)
  then have "readKeypoints (concat (map (\<lambda>kp. [x kp, y kp, confidence kp]) ks)) (3 * j)
           (map (\<lambda>i. importedKeypoint i (ks ! i)) [0..<j])
      = readKeypoints (concat (map (\<lambda>kp. [x kp, y kp, confidence kp]) ks)) (3 * (j + 1))
           (map (\<lambda>i. importedKeypoint i (ks ! i)) [0..<j + 1])"
    by (subst readKeypoints.simps) (simp only: step if_True distrib_left mult_1_right)
  with Suc.hyps(1)[OF n j1] show ?case by simp
qed

lemma fromOpenPoseFormat_roundtrip:
  assumes "17 \<le> length (keypoints P)"
  shows "fromOpenPoseFormat (toPoseOpenPoseFormat P) =
         Some \<lparr>keypoints = map (\<lambda>i. importedKeypoint i (keypoints P ! i))
                              [0..<length (keypoints P)],
               skeleton =
                 [(0, 1), (0, 2), (1, 3), (2, 4),
                  (5, 6), (5, 7), (7, 9), (6, 8), (8, 10),
                  (5, 11), (6, 12), (11, 12),
                  (11, 13), (13, 15), (12, 14), (14, 16)],
               width = Some (Fin 768), height = Some (Fin 768)\<rparr>"
  using assms readKeypoints_flat[of 0 "keypoints P"]
  by (simp add: fromOpenPoseFormat_def toPoseOpenPoseFormat_def flat_length)

lemma map_imported:
  "map x (map (\<lambda>i. importedKeypoint i (ks ! i)) [0..<length ks]) = map (\<lambda>k. Some (x k)) ks"
  "map y (map (\<lambda>i. importedKeypoint i (ks ! i)) [0..<length ks]) = map (\<lambda>k. Some (y k)) ks"
  "map confidence (map (\<lambda>i. importedKeypoint i (ks ! i)) [0..<length ks])
   = map (\<lambda>k. Some (confidence k)) ks"
  by (rule nth_equalityI; simp add: importedKeypoint_def)+

text \<open>
  C8. For every pose \<open>P\<close> of 17 keypoints, \<open>fromOpenPoseFormat (toPoseOpenPoseFormat P)\<close>
  is a pose, not null, whose keypoints carry in order the \<open>x\<close>, \<open>y\<close> and confidence of
  the keypoints of \<open>P\<close>, and whose width and height are the default 768, whatever the
  width and height of \<open>P\<close>.
\<close>

theorem openPose_roundtrip:
  assumes "length (keypoints P) = 17"
  shows "\<exists>R. fromOpenPoseFormat (toPoseOpenPoseFormat P) = Some R
           \<and> map x (keypoints R) = map (\<lambda>k. Some (x k)) (keypoints P)
           \<and> map y (keypoints R) = map (\<lambda>k. Some (y k)) (keypoints P)
           \<and> map confidence (keypoints R) = map (\<lambda>k. Some (confidence k)) (keypoints P)
           \<and> width R = Some (Fin 768) \<and> height R = Some (Fin 768)"
proof -
  from assms have "17 \<le> length (keypoints P)" by simp
  from fromOpenPoseFormat_roundtrip[OF this] show ?thesis
    by (simp add: map_imported del: map_map)
qed

theorem openPose_roundtrip_witness:
  "length (keypoints (examplePose\<lparr>width := Fin 1024, height := Fin 512\<rparr>)) = 17
   \<and> (\<exists>R. fromOpenPoseFormat
              (toPoseOpenPoseFormat (examplePose\<lparr>width := Fin 1024, height := Fin 512\<rparr>))
            = Some R
         \<and> map x (keypoints R) = map (\<lambda>k. Some (x k)) (keypoints examplePose)
         \<and> map y (keypoints R) = map (\<lambda>k. Some (y k)) (keypoints examplePose)
         \<and> map confidence (keypoints R)
             = map (\<lambda>k. Some (confidence k)) (keypoints examplePose)
         \<and> width R = Some (Fin 768) \<and> height R = Some (Fin 768))"
proof -
  have l: "length (keypoints (examplePose\<lparr>width := Fin 1024, height := Fin 512\<rparr>)) = 17"
    by (simp add: examplePose_length)
  from openPose_roundtrip[OF l] l show ?thesis by simp
qed

lemma readKeypoints_eq:
  "readKeypoints a i acc
   = acc @ map (\<lambda>j. readAt a (i + 3 * j) (length acc + j)) [0..<(length a - i + 2) div 3]"
proof (induction a i acc rule: readKeypoints.induct)
  case (1 a i acc)
  show ?case
  proof (cases "i < length a")
    case False
    then have "(length a - i + 2) div 3 = 0" by simp
    with False show ?thesis by (subst readKeypoints.simps) simp
  next
    case True
    then have n: "(length a - i + 2) div 3 = Suc ((length a - (i + 3) + 2) div 3)"
      by arith
    have "readKeypoints a i acc
          = readKeypoints a (i + 3) (acc @ [readAt a i (length acc)])"
      using True by (subst readKeypoints.simps) (simp add: readAt_def)
    also have "\<dots> = (acc @ [readAt a i (length acc)])
                 @ map (\<lambda>j. readAt a (i + 3 + 3 * j) (length (acc @ [readAt a i (length acc)]) + j))
                       [0..<(length a - (i + 3) + 2) div 3]"
      using "1.IH"[OF True] by (simp add: readAt_def)
    also have "\<dots> = acc @ map (\<lambda>j. readAt a (i + 3 * j) (length acc + j))
                            [0..<Suc ((length a - (i + 3) + 2) div 3)]"
      by (simp add: map_upt_Suc add.assoc del: upt_Suc)
    finally show ?thesis by (simp only: n)
  qed
qed

lemma fromOpenPoseFormat_Some:
  assumes "people d = Some (person # rest)" and "pose_keypoints_2d person = Some a"
    and "51 \<le> length a"
  shows "fromOpenPoseFormat d =
         Some \<lparr>keypoints = map (\<lambda>j. readAt a (3 * j) j) [0..<(length a + 2) div 3],
               skeleton =
                 [(0, 1), (0, 2), (1, 3), (2, 4),
                  (5, 6), (5, 7), (7, 9), (6, 8), (8, 10),
                  (5, 11), (6, 12), (11, 12),
                  (11, 13), (13, 15), (12, 14), (14, 16)],
               width = Some (Fin 768), height = Some (Fin 768)\<rparr>"
  using assms by (simp add: fromOpenPoseFormat_def readKeypoints_eq)

lemma readAt_defined:
  "(x (readAt a i n) \<noteq> None \<and> y (readAt a i n) \<noteq> None \<and> confidence (readAt a i n) \<noteq> None)
   = (i + 2 < length a)"
  by (auto simp: readAt_def element_def)

lemma imported_valid:
  "validatePoseData
     \<lparr>keypoints = map (\<lambda>j. readAt a (3 * j) j) [0..<(length a + 2) div 3],
      skeleton = s, width = Some w, height = Some h\<rparr>
   = (length a mod 3 = 0)"
proof (cases "length a mod 3 = 0")
  case True
  have "x (readAt a (3 * j) j) \<noteq> None \<and> y (readAt a (3 * j) j) \<noteq> None
        \<and> confidence (readAt a (3 * j) j) \<noteq> None"
    if "j < (length a + 2) div 3" for j
  proof -
    from that True have "3 * j + 2 < length a" by arith
    then show ?thesis by (simp add: readAt_def element_def)
  qed
  with True show ?thesis
    by (simp add: validatePoseData_def list_all_iff)
next
  case False
  define j where "j = (length a + 2) div 3 - 1"
  from False have "j < (length a + 2) div 3" "\<not> 3 * j + 2 < length a"
    unfolding j_def by arith+
  then have "\<exists>k\<in>set [0..<(length a + 2) div 3]. confidence (readAt a (3 * k) k) = None"
    by (auto simp: readAt_def element_def intro!: bexI[of _ j])
  with False show ?thesis
    by (auto simp: validatePoseData_def list_all_iff)
qed


lemma fromOpenPoseFormat_None_iff:
  "(fromOpenPoseFormat d = None) =
   (people d = None \<or> people d = Some []
    \<or> (\<exists>person rest. people d = Some (person # rest)
          \<and> (pose_keypoints_2d person = None
               \<or> (\<exists>a. pose_keypoints_2d person = Some a \<and> length a < 51))))"
proof (cases "people d")
  case None
  then show ?thesis by (simp add: fromOpenPoseFormat_def)
next
  case (Some ps)
  show ?thesis
  proof (cases ps)
    case Nil
    with Some show ?thesis by (simp add: fromOpenPoseFormat_def)
  next
    case (Cons person rest)
    with Some show ?thesis
      by (cases "pose_keypoints_2d person") (auto simp: fromOpenPoseFormat_def)
  qed
qed

text \<open>
  C9, amended. On an OpenPose-shaped object \<open>fromOpenPoseFormat\<close> returns null exactly
  when \<^verbatim>\<open>people\<close> is absent or empty, or the first person's \<^verbatim>\<open>pose_keypoints_2d\<close> is
  absent or has fewer than 51 values; the function has no raising branch on such an
  object. In every other case it returns a result that is not null, with one keypoint
  for every started triple of values, and that result is a PoseData (all its numbers are
  numbers) exactly when the number of values is a multiple of 3.
\<close>

theorem fromOpenPoseFormat_null:
  "((fromOpenPoseFormat d = None) =
     (people d = None \<or> people d = Some []
      \<or> (\<exists>person rest. people d = Some (person # rest)
            \<and> (pose_keypoints_2d person = None
                 \<or> (\<exists>a. pose_keypoints_2d person = Some a \<and> length a < 51)))))
   \<and> (people d = Some (p # ps) \<and> pose_keypoints_2d p = Some values \<and> 51 \<le> length values \<longrightarrow>
        (\<exists>R. fromOpenPoseFormat d = Some R
           \<and> length (keypoints R) = (length values + 2) div 3
           \<and> validatePoseData R = (length values mod 3 = 0)))"
proof (intro conjI impI)
  show "(fromOpenPoseFormat d = None) =
     (people d = None \<or> people d = Some []
      \<or> (\<exists>person rest. people d = Some (person # rest)
            \<and> (pose_keypoints_2d person = None
                 \<or> (\<exists>a. pose_keypoints_2d person = Some a \<and> length a < 51))))"
    by (rule fromOpenPoseFormat_None_iff)
next
  assume a: "people d = Some (p # ps) \<and> pose_keypoints_2d p = Some values \<and> 51 \<le> length values"
  define R where "R =
         \<lparr>keypoints = map (\<lambda>j. readAt values (3 * j) j) [0..<(length values + 2) div 3],
          skeleton =
            [(0, 1), (0, 2), (1, 3), (2, 4),
             (5, 6), (5, 7), (7, 9), (6, 8), (8, 10),
             (5, 11), (6, 12), (11, 12),
             (11, 13), (13, 15), (12, 14), (14, 16)],
          width = Some (Fin 768), height = Some (Fin 768)\<rparr>"
  have 1: "fromOpenPoseFormat d = Some R"
    unfolding R_def using fromOpenPoseFormat_Some[of d p ps "values"] a by simp
  have 2: "length (keypoints R) = (length values + 2) div 3"
    by (simp add: R_def del: upt_Suc)
  have 3: "validatePoseData R = (length values mod 3 = 0)"
    unfolding R_def by (rule imported_valid)
  show "\<exists>R. fromOpenPoseFormat d = Some R
           \<and> length (keypoints R) = (length values + 2) div 3
           \<and> validatePoseData R = (length values mod 3 = 0)"
    by (intro exI[of _ R] conjI) (rule 1, rule 2, rule 3)
qed

theorem fromOpenPoseFormat_null_witness:
  "fromOpenPoseFormat \<lparr>version = Fin 1.3, people = None\<rparr> = None
   \<and> fromOpenPoseFormat \<lparr>version = Fin 1.3, people = Some []\<rparr> = None
   \<and> fromOpenPoseFormat \<lparr>version = Fin 1.3, people = Some [personWith None]\<rparr> = None
   \<and> fromOpenPoseFormat
        \<lparr>version = Fin 1.3, people = Some [personWith (Some (replicate 50 (Fin 1)))]\<rparr> = None
   \<and> (\<exists>R. fromOpenPoseFormat
              \<lparr>version = Fin 1.3, people = Some [personWith (Some (replicate 51 (Fin 1)))]\<rparr>
            = Some R
          \<and> length (keypoints R) = 17 \<and> validatePoseData R)"
proof -
  have 1: "fromOpenPoseFormat \<lparr>version = Fin 1.3, people = None\<rparr> = None"
    using fromOpenPoseFormat_null[of "\<lparr>version = Fin 1.3, people = None\<rparr>"] by simp
  have 2: "fromOpenPoseFormat \<lparr>version = Fin 1.3, people = Some []\<rparr> = None"
    using fromOpenPoseFormat_null[of "\<lparr>version = Fin 1.3, people = Some []\<rparr>"] by simp
  have 3: "fromOpenPoseFormat \<lparr>version = Fin 1.3, people = Some [personWith None]\<rparr> = None"
    using fromOpenPoseFormat_null[of "\<lparr>version = Fin 1.3, people = Some [personWith None]\<rparr>"]
    by (simp add: personWith_def)
  have 4: "fromOpenPoseFormat
        \<lparr>version = Fin 1.3, people = Some [personWith (Some (replicate 50 (Fin 1)))]\<rparr> = None"
    using fromOpenPoseFormat_null[of
        "\<lparr>version = Fin 1.3, people = Some [personWith (Some (replicate 50 (Fin 1)))]\<rparr>"]
    by (simp add: personWith_def)
  have 5: "\<exists>R. fromOpenPoseFormat
              \<lparr>version = Fin 1.3, people = Some [personWith (Some (replicate 51 (Fin 1)))]\<rparr>
            = Some R
          \<and> length (keypoints R) = 17 \<and> validatePoseData R"
    using fromOpenPoseFormat_null[of
        "\<lparr>version = Fin 1.3, people = Some [personWith (Some (replicate 51 (Fin 1)))]\<rparr>"
        "personWith (Some (replicate 51 (Fin 1)))" "[]" "replicate 51 (Fin 1)"]
    by (simp add: personWith_def)
  from 1 2 3 4 5 show ?thesis by simp
qed

text \<open>With 52 values the loop runs 18 times; the last keypoint has \<open>x\<close> from index 51
  and reads \<open>y\<close> and \<open>confidence\<close> past the end of the array.\<close>

theorem fromOpenPoseFormat_partial_counterexample:
  "fromOpenPoseFormat
     \<lparr>version = Fin 1.3, people = Some [personWith (Some (replicate 52 (Fin 1)))]\<rparr> \<noteq> None
   \<and> length (keypoints (the (fromOpenPoseFormat
        \<lparr>version = Fin 1.3, people = Some [personWith (Some (replicate 52 (Fin 1)))]\<rparr>))) = 18
   \<and> x (keypoints (the (fromOpenPoseFormat
        \<lparr>version = Fin 1.3, people = Some [personWith (Some (replicate 52 (Fin 1)))]\<rparr>)) ! 17)
       = Some (Fin 1)
   \<and> y (keypoints (the (fromOpenPoseFormat
        \<lparr>version = Fin 1.3, people = Some [personWith (Some (replicate 52 (Fin 1)))]\<rparr>)) ! 17)
       = None
   \<and> confidence (keypoints (the (fromOpenPoseFormat
        \<lparr>version = Fin 1.3, people = Some [personWith (Some (replicate 52 (Fin 1)))]\<rparr>)) ! 17)
       = None
   \<and> \<not> validatePoseData (the (fromOpenPoseFormat
        \<lparr>version = Fin 1.3, people = Some [personWith (Some (replicate 52 (Fin 1)))]\<rparr>))"
proof -
  have e: "fromOpenPoseFormat
     \<lparr>version = Fin 1.3, people = Some [personWith (Some (replicate 52 (Fin 1)))]\<rparr>
     = Some \<lparr>keypoints = map (\<lambda>j. readAt (replicate 52 (Fin 1)) (3 * j) j)
                              [0..<(length (replicate 52 (Fin 1 :: jsnum)) + 2) div 3],
               skeleton =
                 [(0, 1), (0, 2), (1, 3), (2, 4),
                  (5, 6), (5, 7), (7, 9), (6, 8), (8, 10),
                  (5, 11), (6, 12), (11, 12),
                  (11, 13), (13, 15), (12, 14), (14, 16)],
               width = Some (Fin 768), height = Some (Fin 768)\<rparr>"
    by (rule fromOpenPoseFormat_Some[of _ "personWith (Some (replicate 52 (Fin 1)))" "[]"])
       (simp_all add: personWith_def)
  have n: "(length (replicate 52 (Fin 1 :: jsnum)) + 2) div 3 = 18" by simp
  have v: "\<not> validatePoseData
     \<lparr>keypoints = map (\<lambda>j. readAt (replicate 52 (Fin 1)) (3 * j) j)
                              [0..<(length (replicate 52 (Fin 1 :: jsnum)) + 2) div 3],
               skeleton =
                 [(0, 1), (0, 2), (1, 3), (2, 4),
                  (5, 6), (5, 7), (7, 9), (6, 8), (8, 10),
                  (5, 11), (6, 12), (11, 12),
                  (11, 13), (13, 15), (12, 14), (14, 16)],
               width = Some (Fin 768), height = Some (Fin 768)\<rparr>"
    by (simp only: imported_valid) simp
  have k: "map (\<lambda>j. readAt (replicate 52 (Fin 1)) (3 * j) j) [0..<18] ! 17
           = readAt (replicate 52 (Fin 1)) 51 17"
    by (simp del: upt_Suc)
  from v show ?thesis
    unfolding e option.sel
    by (simp add: n k readAt_def element_def del: upt_Suc)
qed

end
